theory Spec2Isabelle
  imports Complex_Main "HOL-Library.AList"
begin

section \<open>JavaScript values and objects\<close>

text \<open>
  The rows handled by \<^verbatim>\<open>masterFileService.ts\<close> are plain JavaScript objects
  (\<^verbatim>\<open>MergedRow\<close>, with the index signature \<^verbatim>\<open>[key: string]: any\<close>). A property value is
  one of the primitive values below. Numbers are modelled as exact rationals: the merge
  logic only copies them and tests them against zero, \<^verbatim>\<open>undefined\<close> and \<^verbatim>\<open>null\<close>;
  \<^verbatim>\<open>NaN\<close> is produced by none of the functions modelled here. A string is the list of
  its code units, and a \<^typ>\<open>char\<close> is a code unit from U+0000 to U+00FF; strings with
  other code units are outside the model.
\<close>

datatype jsval = JUndefined | JNull | JBool bool | JNum rat | JStr string

text \<open>\<^verbatim>\<open>if (v)\<close>, \<^verbatim>\<open>!v\<close> and \<^verbatim>\<open>a || b\<close>.\<close>

fun truthy :: "jsval \<Rightarrow> bool" where
  "truthy JUndefined = False"
| "truthy JNull = False"
| "truthy (JBool b) = b"
| "truthy (JNum n) = (n \<noteq> 0)"
| "truthy (JStr s) = (s \<noteq> [])"

definition jsOr :: "jsval \<Rightarrow> jsval \<Rightarrow> jsval" where
  "jsOr a b = (if truthy a then a else b)"

text \<open>
  An object is the list of its properties in key order. Reading a missing property gives
  \<^verbatim>\<open>undefined\<close>; assignment replaces the value of an existing key in place and appends a
  new key at the end (\<^const>\<open>AList.update\<close>); \<^verbatim>\<open>key in obj\<close> asks whether the key occurs;
  \<^verbatim>\<open>Object.keys\<close> lists the keys in order.
\<close>

type_synonym MergedRow = "(string \<times> jsval) list"

definition getProp :: "MergedRow \<Rightarrow> string \<Rightarrow> jsval" where
  "getProp obj k = (case map_of obj k of None \<Rightarrow> JUndefined | Some v \<Rightarrow> v)"

definition setProp :: "MergedRow \<Rightarrow> string \<Rightarrow> jsval \<Rightarrow> MergedRow" where
  "setProp obj k v = AList.update k v obj"

definition hasProp :: "MergedRow \<Rightarrow> string \<Rightarrow> bool" where
  "hasProp obj k = (map_of obj k \<noteq> None)"

definition objectKeys :: "MergedRow \<Rightarrow> string list" where
  "objectKeys obj = map fst obj"

text \<open>
  The functions of the JavaScript host that the code calls and that are not modelled
  here: the conversion of a number to a string (in template literals and \<^verbatim>\<open>String(v)\<close>),
  \<^verbatim>\<open>String.prototype.localeCompare\<close>, \<^verbatim>\<open>parseFloat\<close> (\<^const>\<open>None\<close> for \<^verbatim>\<open>NaN\<close>) and the
  date parser behind \<^verbatim>\<open>new Date(value)\<close> followed by \<^verbatim>\<open>toISOString().split('T')[0]\<close>
  (\<^const>\<open>None\<close> for an invalid date). Every theorem below holds for any host.
\<close>

record host =
  numberToString :: "rat \<Rightarrow> string"
  localeCompare :: "string \<Rightarrow> string \<Rightarrow> int"
  parseFloat :: "string \<Rightarrow> rat option"
  dateToISODay :: "string \<Rightarrow> string option"

fun jsToString :: "host \<Rightarrow> jsval \<Rightarrow> string" where
  "jsToString H JUndefined = ''undefined''"
| "jsToString H JNull = ''null''"
| "jsToString H (JBool b) = (if b then ''true'' else ''false'')"
| "jsToString H (JNum n) = numberToString H n"
| "jsToString H (JStr s) = s"

subsection \<open>Strings\<close>

text \<open>
  \<^verbatim>\<open>String.prototype.toLowerCase\<close> on code units up to U+00FF: the letters A to Z,
  U+00C0 to U+00D6 and U+00D8 to U+00DE are moved up by 32, every other code unit stays.
\<close>

definition toLowerChar :: "char \<Rightarrow> char" where
  "toLowerChar c =
     (let n = (of_char c :: nat) in
      if (65 \<le> n \<and> n \<le> 90) \<or> (192 \<le> n \<and> n \<le> 214) \<or> (216 \<le> n \<and> n \<le> 222)
      then char_of (n + 32) else c)"

definition toLowerCase :: "string \<Rightarrow> string" where
  "toLowerCase s = map toLowerChar s"

text \<open>
  The white space and line terminators that \<^verbatim>\<open>String.prototype.trim\<close> and the class
  \<^verbatim>\<open>\s\<close> of regular expressions recognise among the code units up to U+00FF: tab, line
  feed, vertical tab, form feed, carriage return, space and no-break space.
\<close>

definition isSpace :: "char \<Rightarrow> bool" where
  "isSpace c = ((of_char c :: nat) \<in> {9, 10, 11, 12, 13, 32, 160})"

definition trimStart :: "string \<Rightarrow> string" where
  "trimStart s = dropWhile isSpace s"

definition trimEnd :: "string \<Rightarrow> string" where
  "trimEnd s = rev (dropWhile isSpace (rev s))"

definition trim :: "string \<Rightarrow> string" where
  "trim s = trimEnd (trimStart s)"

text \<open>\<^verbatim>\<open>hay.includes(needle)\<close>.\<close>

fun strIncludes :: "string \<Rightarrow> string \<Rightarrow> bool" where
  "strIncludes [] needle = (needle = [])"
| "strIncludes (c # cs) needle =
     (take (length needle) (c # cs) = needle \<or> strIncludes cs needle)"

section \<open>The merge of two rows: \<^verbatim>\<open>mergeRowData\<close>\<close>

datatype fileType = Sales | Payment | Gst | Refund

text \<open>
  Every statement in the four branches of \<^verbatim>\<open>mergeRowData\<close> has the shape
  \<^verbatim>\<open>if (guard(newRow.f)) merged.f = newRow.f\<close> with one of three guards:
  \<^verbatim>\<open>newRow.f\<close> (truthy), \<^verbatim>\<open>newRow.f !== undefined && newRow.f !== null\<close>, and
  \<^verbatim>\<open>newRow.f !== undefined\<close>.
\<close>

datatype guard = IfTruthy | IfNotNullish | IfDefined

fun passes :: "guard \<Rightarrow> jsval \<Rightarrow> bool" where
  "passes IfTruthy v = truthy v"
| "passes IfNotNullish v = (v \<noteq> JUndefined \<and> v \<noteq> JNull)"
| "passes IfDefined v = (v \<noteq> JUndefined)"

definition assignIf :: "MergedRow \<Rightarrow> guard \<times> string \<Rightarrow> MergedRow \<Rightarrow> MergedRow" where
  "assignIf newRow gf merged =
     (if passes (fst gf) (getProp newRow (snd gf))
      then setProp merged (snd gf) (getProp newRow (snd gf)) else merged)"

text \<open>The statements of each branch, in the order of the source.\<close>

definition salesAssignments :: "(guard \<times> string) list" where
  "salesAssignments =
    [(IfTruthy, ''productName''), (IfTruthy, ''sku''), (IfTruthy, ''skuName''),
     (IfNotNullish, ''quantity''), (IfTruthy, ''status''), (IfTruthy, ''customerName''),
     (IfTruthy, ''customerState''), (IfTruthy, ''customerCity''),
     (IfTruthy, ''customerPincode''), (IfNotNullish, ''wholesalePrice''),
     (IfNotNullish, ''sellingPrice''), (IfNotNullish, ''shippingCharge''),
     (IfTruthy, ''orderDate'')]"

definition paymentAssignments :: "(guard \<times> string) list" where
  "paymentAssignments =
    [(IfTruthy, ''paymentMode''), (IfTruthy, ''hsn''), (IfNotNullish, ''commission''),
     (IfNotNullish, ''tcs''), (IfNotNullish, ''tds''), (IfNotNullish, ''shipperCharge''),
     (IfNotNullish, ''netAmount''),
     (IfNotNullish, ''wholesalePrice''), (IfNotNullish, ''shippingCharge''),
     (IfTruthy, ''customerCity''), (IfTruthy, ''customerPincode''),
     (IfTruthy, ''customerState''), (IfTruthy, ''productName''), (IfTruthy, ''status'')]"

definition gstAssignments :: "(guard \<times> string) list" where
  "gstAssignments =
    [(IfTruthy, ''invoiceNumber''), (IfTruthy, ''invoiceDate''), (IfTruthy, ''hsn''),
     (IfNotNullish, ''gstRate''), (IfNotNullish, ''taxableValue''), (IfNotNullish, ''cgst''),
     (IfNotNullish, ''sgst''), (IfNotNullish, ''igst''), (IfNotNullish, ''invoiceAmount''),
     (IfTruthy, ''sku''), (IfTruthy, ''productName''), (IfNotNullish, ''quantity''),
     (IfTruthy, ''customerState''), (IfTruthy, ''status'')]"

definition refundAssignments :: "(guard \<times> string) list" where
  "refundAssignments =
    [(IfNotNullish, ''refundAmount''), (IfNotNullish, ''deductionAmount''),
     (IfTruthy, ''refundReason''), (IfTruthy, ''refundDate''), (IfNotNullish, ''gstRefund'')]"

text \<open>\<^verbatim>\<open>// Always allow status and gstRefund updates (for returns)\<close>\<close>

definition alwaysAssignments :: "(guard \<times> string) list" where
  "alwaysAssignments = [(IfDefined, ''status''), (IfNotNullish, ''gstRefund'')]"

fun kindAssignments :: "fileType \<Rightarrow> (guard \<times> string) list" where
  "kindAssignments Sales = salesAssignments"
| "kindAssignments Payment = paymentAssignments"
| "kindAssignments Gst = gstAssignments"
| "kindAssignments Refund = refundAssignments"

text \<open>
  The last loop of \<^verbatim>\<open>mergeRowData\<close>: every key of \<^verbatim>\<open>newRow\<close> other than the two identity
  keys is copied when \<^verbatim>\<open>merged\<close> does not have it yet.
\<close>

definition addMissing :: "MergedRow \<Rightarrow> string \<Rightarrow> MergedRow \<Rightarrow> MergedRow" where
  "addMissing newRow key merged =
     (if key \<noteq> ''orderId'' \<and> key \<noteq> ''subOrderId'' \<and> \<not> hasProp merged key
      then setProp merged key (getProp newRow key) else merged)"

definition mergeRowData :: "MergedRow \<Rightarrow> MergedRow \<Rightarrow> fileType \<Rightarrow> MergedRow" where
  "mergeRowData existing newRow ft =
     (let merged = existing;
          merged = setProp merged ''orderId'' (getProp existing ''orderId'');
          merged = setProp merged ''subOrderId''
                     (jsOr (getProp existing ''subOrderId'') (getProp existing ''orderId''));
          merged = fold (assignIf newRow) (kindAssignments ft) merged;
          merged = fold (assignIf newRow) alwaysAssignments merged
      in fold (addMissing newRow) (objectKeys newRow) merged)"

text \<open>
  Which statements of a list fire for a field, and whether a merge of the given kind
  assigns the field from \<^verbatim>\<open>newRow\<close> at all.
\<close>

definition assigns :: "MergedRow \<Rightarrow> (guard \<times> string) list \<Rightarrow> string \<Rightarrow> bool" where
  "assigns newRow as f =
     list_ex (\<lambda>gf. snd gf = f \<and> passes (fst gf) (getProp newRow f)) as"

definition writes :: "fileType \<Rightarrow> MergedRow \<Rightarrow> string \<Rightarrow> bool" where
  "writes ft newRow f = assigns newRow (kindAssignments ft @ alwaysAssignments) f"

definition beforeOverflow :: "MergedRow \<Rightarrow> MergedRow \<Rightarrow> fileType \<Rightarrow> MergedRow" where
  "beforeOverflow existing newRow ft =
     fold (assignIf newRow) alwaysAssignments
       (fold (assignIf newRow) (kindAssignments ft)
          (setProp (setProp existing ''orderId'' (getProp existing ''orderId'')) ''subOrderId''
             (jsOr (getProp existing ''subOrderId'') (getProp existing ''orderId''))))"

section \<open>The identity key\<close>

text \<open>
  \<^verbatim>\<open>`${row.orderId}_${row.subOrderId || row.orderId}`\<close>, the key by which the final
  \<^verbatim>\<open>sort\<close> compares, and the same string after \<^verbatim>\<open>.toLowerCase().trim()\<close>, the key of the
  two \<^verbatim>\<open>Map\<close>s of \<^verbatim>\<open>mergeIntoMasterFile\<close>.
\<close>

definition compositeKey :: "host \<Rightarrow> MergedRow \<Rightarrow> string" where
  "compositeKey H row =
     jsToString H (getProp row ''orderId'') @ ''_'' @
     jsToString H (jsOr (getProp row ''subOrderId'') (getProp row ''orderId''))"

definition rowKey :: "host \<Rightarrow> MergedRow \<Rightarrow> string" where
  "rowKey H row = trim (toLowerCase (compositeKey H row))"

text \<open>
  \<^verbatim>\<open>processFile\<close> builds its key from the two strings it has extracted:
  \<^verbatim>\<open>`${orderId}_${subOrderId}`.toLowerCase().trim()\<close>.
\<close>

definition uniqueKey :: "string \<Rightarrow> string \<Rightarrow> string" where
  "uniqueKey orderId subOrderId = trim (toLowerCase (orderId @ ''_'' @ subOrderId))"

text \<open>The key as the specification words it, each part trimmed on its own.\<close>

definition specIdentityKey :: "string \<Rightarrow> string \<Rightarrow> string" where
  "specIdentityKey orderId subOrderId =
     toLowerCase (trim orderId) @ ''_'' @ toLowerCase (trim subOrderId)"

section \<open>Reading the master file: \<^verbatim>\<open>readMasterFile\<close>\<close>

text \<open>
  The fields of a thrown value that the \<^verbatim>\<open>catch\<close> block inspects:
  \<^verbatim>\<open>error?.code\<close>, \<^verbatim>\<open>error?.message\<close>, \<^verbatim>\<open>error?.name\<close> and
  \<^verbatim>\<open>error?.serverResponse?.statusCode\<close>.
\<close>

record jsError =
  code :: "string option"
  message :: "string option"
  name :: "string option"
  statusCode :: "int option"

definition newError :: "string \<Rightarrow> jsError" where
  "newError msg = \<lparr>code = None, message = Some msg, name = Some ''Error'', statusCode = None\<rparr>"

text \<open>
  What one attempt to read a storage path runs into: \<^verbatim>\<open>getDownloadURL\<close> throws,
  \<^verbatim>\<open>fetch\<close> throws, the response is not \<^verbatim>\<open>ok\<close> (with its status text), reading or
  decoding the workbook throws, or the rows are decoded.
\<close>

datatype readAttempt =
    UrlFails jsError
  | FetchFails jsError
  | ResponseNotOk string
  | DecodeFails jsError
  | Decoded "MergedRow list"

definition messageIncludes :: "jsError \<Rightarrow> string \<Rightarrow> bool" where
  "messageIncludes e needle = (case message e of None \<Rightarrow> False | Some m \<Rightarrow> strIncludes m needle)"

definition looksNotFound :: "jsError \<Rightarrow> bool" where
  "looksNotFound e =
     (code e = Some ''storage/object-not-found'' \<or>
      code e = Some ''storage/unauthorized'' \<or>
      code e = Some ''storage/unknown'' \<or>
      messageIncludes e ''not found'' \<or>
      messageIncludes e ''No such object'' \<or>
      statusCode e = Some 404 \<or>
      messageIncludes e ''404'')"

definition looksCors :: "jsError \<Rightarrow> bool" where
  "looksCors e =
     (messageIncludes e ''CORS'' \<or>
      messageIncludes e ''Access-Control-Allow-Origin'' \<or>
      messageIncludes e ''blocked by CORS policy'' \<or>
      messageIncludes e ''Failed to fetch'' \<or>
      (name e = Some ''TypeError'' \<and> messageIncludes e ''fetch''))"

definition corsError :: jsError where
  "corsError =
     newError ''CORS configuration required. See QUICK_CORS_FIX.md for setup instructions.''"

definition catchBlock :: "jsError \<Rightarrow> jsError + MergedRow list" where
  "catchBlock error =
     (if looksNotFound error then Inr []
      else if looksCors error then Inl corsError
      else Inr [])"

fun readMasterFile :: "readAttempt \<Rightarrow> jsError + MergedRow list" where
  "readMasterFile (UrlFails e) = catchBlock e"
| "readMasterFile (FetchFails e) = catchBlock e"
| "readMasterFile (ResponseNotOk statusText) =
     catchBlock (newError (''Failed to fetch file: '' @ statusText))"
| "readMasterFile (DecodeFails e) = catchBlock e"
| "readMasterFile (Decoded rows) = Inr rows"

section \<open>Rewriting the master file: \<^verbatim>\<open>mergeIntoMasterFile\<close>\<close>

text \<open>
  A JavaScript \<^verbatim>\<open>Map\<close> keeps its keys in insertion order; \<^verbatim>\<open>set\<close> on an existing key
  keeps the key's position.
\<close>

type_synonym rowMap = "(string \<times> MergedRow) list"

definition indexExisting :: "host \<Rightarrow> MergedRow list \<Rightarrow> rowMap" where
  "indexExisting H existingRows =
     fold (\<lambda>row existingMap. AList.update (rowKey H row) row existingMap) existingRows []"

definition processNewRow ::
  "host \<Rightarrow> fileType \<Rightarrow> MergedRow \<Rightarrow> rowMap \<times> rowMap \<Rightarrow> rowMap \<times> rowMap" where
  "processNewRow H ft newRow maps =
     (let existingMap = fst maps; newRowsMap = snd maps in
      if \<not> truthy (getProp newRow ''orderId'') then (existingMap, newRowsMap)
      else
        let key = rowKey H newRow in
        case map_of existingMap key of
          Some existing \<Rightarrow>
            (AList.update key (mergeRowData existing newRow ft) existingMap, newRowsMap)
        | None \<Rightarrow>
            (case map_of newRowsMap key of
               Some existingNew \<Rightarrow>
                 (existingMap, AList.update key (mergeRowData existingNew newRow ft) newRowsMap)
             | None \<Rightarrow> (existingMap, AList.update key newRow newRowsMap)))"

definition addNewRows :: "rowMap \<Rightarrow> rowMap \<Rightarrow> rowMap" where
  "addNewRows newRowsMap existingMap =
     fold (\<lambda>kr m. if map_of m (fst kr) \<noteq> None then m else AList.update (fst kr) (snd kr) m)
       newRowsMap existingMap"

text \<open>
  \<^verbatim>\<open>Array.prototype.sort\<close> is stable; its result is defined by the language only for a
  consistent comparator, for which it is the result of the stable insertion sort below.
\<close>

fun insertBy :: "('a \<Rightarrow> 'a \<Rightarrow> int) \<Rightarrow> 'a \<Rightarrow> 'a list \<Rightarrow> 'a list" where
  "insertBy cmp x [] = [x]"
| "insertBy cmp x (y # ys) = (if cmp x y \<le> 0 then x # y # ys else y # insertBy cmp x ys)"

definition sortBy :: "('a \<Rightarrow> 'a \<Rightarrow> int) \<Rightarrow> 'a list \<Rightarrow> 'a list" where
  "sortBy cmp xs = foldr (insertBy cmp) xs []"

definition compareRows :: "host \<Rightarrow> MergedRow \<Rightarrow> MergedRow \<Rightarrow> int" where
  "compareRows H a b = localeCompare H (compositeKey H a) (compositeKey H b)"

text \<open>The rows that \<^verbatim>\<open>mergeIntoMasterFile\<close> writes, from the rows it has read.\<close>

definition mergedRows :: "host \<Rightarrow> MergedRow list \<Rightarrow> MergedRow list \<Rightarrow> fileType \<Rightarrow> MergedRow list" where
  "mergedRows H existingRows newRows ft =
     (let existingMap = indexExisting H existingRows;
          maps = fold (processNewRow H ft) newRows (existingMap, []);
          existingMap = addNewRows (snd maps) (fst maps)
      in sortBy (compareRows H) (map snd existingMap))"

definition getMasterFilePath :: "string \<Rightarrow> string \<Rightarrow> string" where
  "getMasterFilePath companyId platformId =
     ''companies/'' @ companyId @ ''/platforms/'' @ platformId @ ''/master.xlsx''"

text \<open>
  The workbook between a write and the next read. \<^verbatim>\<open>XLSX.utils.json_to_sheet\<close> makes
  one column for every key, in the order in which the keys first occur in the rows, and
  leaves the cell of a missing, \<^verbatim>\<open>null\<close> or \<^verbatim>\<open>undefined\<close> value empty;
  \<^verbatim>\<open>XLSX.utils.sheet_to_json(worksheet, { defval: '' })\<close> in \<^verbatim>\<open>readMasterFile\<close> gives
  every row every column, in the order of the columns, with the empty string for an
  empty cell; a row whose cells are all empty is not read back. Strings, numbers and
  booleans come back as they were written.
\<close>

definition sheetHeader :: "MergedRow list \<Rightarrow> string list" where
  "sheetHeader rows =
     fold (\<lambda>row hdr. fold (\<lambda>k hdr. if k \<in> set hdr then hdr else hdr @ [k]) (objectKeys row) hdr)
       rows []"

definition cellValue :: "jsval \<Rightarrow> jsval" where
  "cellValue v = (if v = JUndefined \<or> v = JNull then JStr [] else v)"

definition readRow :: "string list \<Rightarrow> MergedRow \<Rightarrow> MergedRow" where
  "readRow hdr row = map (\<lambda>k. (k, cellValue (getProp row k))) hdr"

definition blankRow :: "MergedRow \<Rightarrow> bool" where
  "blankRow row =
     list_all (\<lambda>k. getProp row k = JUndefined \<or> getProp row k = JNull) (objectKeys row)"

definition xlsxRoundTrip :: "MergedRow list \<Rightarrow> MergedRow list" where
  "xlsxRoundTrip rows =
     map (readRow (sheetHeader rows)) (filter (\<lambda>row. \<not> blankRow row) rows)"

text \<open>
  The storage is modelled by what a read of each path runs into. A read that throws is
  caught by \<^verbatim>\<open>mergeIntoMasterFile\<close> and taken for an empty file. \<^verbatim>\<open>uploadBytes\<close> either
  throws (the exception leaves \<^verbatim>\<open>mergeIntoMasterFile\<close>, the storage is unchanged) or
  replaces the file; the next read of the path then decodes the workbook that was
  written.
\<close>

type_synonym storage = "string \<Rightarrow> readAttempt"

definition mergeIntoMasterFile ::
  "host \<Rightarrow> storage \<Rightarrow> jsError option \<Rightarrow> string \<Rightarrow> string \<Rightarrow> MergedRow list \<Rightarrow> fileType
     \<Rightarrow> jsError + (storage \<times> string)" where
  "mergeIntoMasterFile H store uploadThrows companyId platformId newRows ft =
     (let masterPath = getMasterFilePath companyId platformId;
          existingRows = (case readMasterFile (store masterPath) of
                            Inl error \<Rightarrow> [] | Inr rows \<Rightarrow> rows);
          rows = mergedRows H existingRows newRows ft
      in case uploadThrows of
           Some error \<Rightarrow> Inl error
         | None \<Rightarrow> Inr (store(masterPath := Decoded (xlsxRoundTrip rows)), masterPath))"

section \<open>The dashboard read path: \<^verbatim>\<open>masterFileLoader.ts\<close>\<close>

record Order =
  id' :: string
  orderId :: jsval
  subOrderId :: jsval
  platformId :: string
  companyId :: string
  productName :: jsval
  sku :: jsval
  skuName :: jsval
  quantity :: jsval
  status :: jsval
  orderDate :: jsval
  customerName :: jsval
  customerState :: jsval
  customerCity :: jsval
  customerPincode :: jsval
  wholesalePrice :: jsval
  sellingPrice :: jsval
  shippingCharge :: jsval
  paymentMode :: jsval
  hsn :: jsval
  commission :: jsval
  tcs :: jsval
  tds :: jsval
  shipperCharge :: jsval
  netAmount :: jsval
  gstRate :: jsval
  invoiceNumber :: jsval
  invoiceDate :: jsval
  cgst :: jsval
  sgst :: jsval
  igst :: jsval
  taxableValue :: jsval
  invoiceAmount :: jsval
  refundAmount :: jsval
  deductionAmount :: jsval
  refundReason :: jsval
  refundDate :: jsval
  gstRefund :: jsval
  rawData :: MergedRow
  createdAt :: string
  updatedAt :: string

definition mergedRowToOrder :: "host \<Rightarrow> MergedRow \<Rightarrow> string \<Rightarrow> string \<Rightarrow> Order" where
  "mergedRowToOrder H row companyId' platformId' =
     \<lparr> id' = compositeKey H row,
       orderId = jsOr (getProp row ''orderId'') (JStr []),
       subOrderId = jsOr (getProp row ''subOrderId'') (jsOr (getProp row ''orderId'') (JStr [])),
       platformId = platformId',
       companyId = companyId',
       productName = jsOr (getProp row ''productName'') (JStr []),
       sku = jsOr (getProp row ''sku'') (JStr []),
       skuName = jsOr (getProp row ''skuName'') (JStr []),
       quantity = jsOr (getProp row ''quantity'') (JNum 0),
       status = jsOr (getProp row ''status'') (JStr []),
       orderDate = jsOr (getProp row ''orderDate'') (JStr []),
       customerName = jsOr (getProp row ''customerName'') (JStr []),
       customerState = jsOr (getProp row ''customerState'') (JStr []),
       customerCity = jsOr (getProp row ''customerCity'') (JStr []),
       customerPincode = jsOr (getProp row ''customerPincode'') (JStr []),
       wholesalePrice = jsOr (getProp row ''wholesalePrice'') (JNum 0),
       sellingPrice = jsOr (getProp row ''sellingPrice'') (JNum 0),
       shippingCharge = jsOr (getProp row ''shippingCharge'') (JNum 0),
       paymentMode = jsOr (getProp row ''paymentMode'') (JStr []),
       hsn = jsOr (getProp row ''hsn'') (JStr []),
       commission = jsOr (getProp row ''commission'') (JNum 0),
       tcs = jsOr (getProp row ''tcs'') (JNum 0),
       tds = jsOr (getProp row ''tds'') (JNum 0),
       shipperCharge = jsOr (getProp row ''shipperCharge'') (JNum 0),
       netAmount = jsOr (getProp row ''netAmount'') (JNum 0),
       gstRate = jsOr (getProp row ''gstRate'') (JNum 0),
       invoiceNumber = jsOr (getProp row ''invoiceNumber'') (JStr []),
       invoiceDate = jsOr (getProp row ''invoiceDate'') (JStr []),
       cgst = jsOr (getProp row ''cgst'') (JNum 0),
       sgst = jsOr (getProp row ''sgst'') (JNum 0),
       igst = jsOr (getProp row ''igst'') (JNum 0),
       taxableValue = jsOr (getProp row ''taxableValue'') (JNum 0),
       invoiceAmount = jsOr (getProp row ''invoiceAmount'') (JNum 0),
       refundAmount = jsOr (getProp row ''refundAmount'') (JNum 0),
       deductionAmount = jsOr (getProp row ''deductionAmount'') (JNum 0),
       refundReason = jsOr (getProp row ''refundReason'') (JStr []),
       refundDate = jsOr (getProp row ''refundDate'') (JStr []),
       gstRefund = JNum 0,
       rawData = row,
       createdAt = [],
       updatedAt = [] \<rparr>"

text \<open>
  \<^verbatim>\<open>loadOrdersFromMasterFiles\<close>. An uploaded file is its pair of company and platform
  identifiers, a company is its identifier with those of its platforms. The first loop
  registers one master path for each distinct pair among the uploaded files, the second
  adds the paths of all remaining platforms.
\<close>

type_synonym platformInfo = "string \<times> string"

definition registerUpload ::
  "platformInfo \<Rightarrow> string list \<times> (string \<times> platformInfo) list
     \<Rightarrow> string list \<times> (string \<times> platformInfo) list" where
  "registerUpload file st =
     (let platformSet = fst st; masterFileMap = snd st;
          key = fst file @ ''_'' @ snd file
      in if key \<in> set platformSet then (platformSet, masterFileMap)
         else (platformSet @ [key],
               AList.update (getMasterFilePath (fst file) (snd file)) file masterFileMap))"

definition registerPlatform ::
  "string \<Rightarrow> string \<Rightarrow> (string \<times> platformInfo) list \<Rightarrow> (string \<times> platformInfo) list" where
  "registerPlatform companyId' platformId' masterFileMap =
     (let masterPath = getMasterFilePath companyId' platformId'
      in if map_of masterFileMap masterPath \<noteq> None then masterFileMap
         else AList.update masterPath (companyId', platformId') masterFileMap)"

definition masterFilesOf ::
  "(string \<times> string list) list \<Rightarrow> platformInfo list \<Rightarrow> (string \<times> platformInfo) list" where
  "masterFilesOf companies uploadedFiles =
     (let masterFileMap = snd (fold registerUpload uploadedFiles ([], []))
      in fold (\<lambda>company m. fold (registerPlatform (fst company)) (snd company) m)
           companies masterFileMap)"

text \<open>
  One element of \<^verbatim>\<open>loadPromises\<close>; an exception of \<^verbatim>\<open>readMasterFile\<close> is caught and
  gives no orders.
\<close>

definition loadOne :: "host \<Rightarrow> storage \<Rightarrow> string \<times> platformInfo \<Rightarrow> Order list" where
  "loadOne H store entry =
     (let masterPath = fst entry; info = snd entry in
      case readMasterFile (store masterPath) of
        Inl error \<Rightarrow> []
      | Inr rows \<Rightarrow>
          if length rows = 0 then []
          else map (\<lambda>row. mergedRowToOrder H row (fst info) (snd info))
                 (filter (\<lambda>row. truthy (getProp row ''orderId'') \<and>
                                trim (jsToString H (getProp row ''orderId'')) \<noteq> []) rows))"

definition loadOrdersFromMasterFiles ::
  "host \<Rightarrow> storage \<Rightarrow> (string \<times> string list) list \<Rightarrow> platformInfo list \<Rightarrow> Order list" where
  "loadOrdersFromMasterFiles H store companies uploadedFiles =
     concat (map (loadOne H store) (masterFilesOf companies uploadedFiles))"

section \<open>Mapping the rows of an uploaded file: \<^verbatim>\<open>processFile\<close>\<close>

text \<open>
  A \<^verbatim>\<open>HeaderMapping\<close> gives the column name configured for a field; a field that is not
  configured reads as \<^verbatim>\<open>undefined\<close>, which every use treats like the empty string.
\<close>

type_synonym HeaderMapping = "(string \<times> string) list"

definition header :: "HeaderMapping \<Rightarrow> string \<Rightarrow> string" where
  "header headers f = (case map_of headers f of None \<Rightarrow> [] | Some h \<Rightarrow> h)"

text \<open>\<^verbatim>\<open>str.replace(/\s+/g, ' ')\<close>: every maximal run of white space becomes one blank.\<close>

fun collapseSpaces :: "string \<Rightarrow> string" where
  "collapseSpaces [] = []"
| "collapseSpaces [c] = (if isSpace c then '' '' else [c])"
| "collapseSpaces (c # d # cs) =
     (if isSpace c
      then (if isSpace d then collapseSpaces (d # cs) else CHR '' '' # collapseSpaces (d # cs))
      else c # collapseSpaces (d # cs))"

definition normalize :: "string \<Rightarrow> string" where
  "normalize str = trim (collapseSpaces (toLowerCase str))"

text \<open>\<^verbatim>\<open>str.replace(/[_\s-]/g, '')\<close>\<close>

definition stripSeparators :: "string \<Rightarrow> string" where
  "stripSeparators str = filter (\<lambda>c. \<not> (c = CHR ''_'' \<or> isSpace c \<or> c = CHR ''-'')) str"

text \<open>\<^verbatim>\<open>v !== undefined && v !== null && v !== ''\<close>\<close>

definition usable :: "jsval \<Rightarrow> bool" where
  "usable v = (v \<noteq> JUndefined \<and> v \<noteq> JNull \<and> v \<noteq> JStr [])"

definition getValue :: "host \<Rightarrow> MergedRow \<Rightarrow> string \<Rightarrow> string" where
  "getValue H row headerName =
     (if headerName = [] then []
      else
        let normalizedHeader = normalize headerName in
        if usable (getProp row headerName) then jsToString H (getProp row headerName)
        else
          let key = find (\<lambda>k. normalize k = normalizedHeader) (objectKeys row) in
          if (case key of None \<Rightarrow> False | Some k \<Rightarrow> k \<noteq> [] \<and> usable (getProp row k))
          then jsToString H (getProp row (the key))
          else
            let partialMatch =
                  find (\<lambda>k. stripSeparators (normalize k) = stripSeparators normalizedHeader)
                    (objectKeys row) in
            if (case partialMatch of None \<Rightarrow> False
                | Some k \<Rightarrow> k \<noteq> [] \<and> usable (getProp row k))
            then jsToString H (getProp row (the partialMatch))
            else [])"

text \<open>
  \<^verbatim>\<open>parseNumber\<close>: the empty string gives 0 at once; otherwise every character other
  than a digit, a dot and a minus sign is removed and the rest goes to \<^verbatim>\<open>parseFloat\<close>,
  with 0 for \<^verbatim>\<open>NaN\<close>.
\<close>

definition parseNumber :: "host \<Rightarrow> string \<Rightarrow> rat" where
  "parseNumber H v =
     (if v = [] then 0
      else
        let cleaned = filter (\<lambda>c. c \<in> set ''0123456789.-'') v in
        case parseFloat H cleaned of None \<Rightarrow> 0 | Some num \<Rightarrow> num)"

definition parseDate :: "host \<Rightarrow> string \<Rightarrow> string" where
  "parseDate H v =
     (if v = [] then []
      else case dateToISODay H v of Some day \<Rightarrow> day | None \<Rightarrow> v)"

text \<open>
  Every statement that fills \<^verbatim>\<open>mergedRow\<close> reads the column configured for the field it
  assigns and converts the text in one of five ways; some statements run only when the
  header is configured (\<^verbatim>\<open>if (headers.f)\<close>).
\<close>

datatype conversion = AsText | AsLowerCase | AsNumber | AsQuantity | AsDate

fun convert :: "host \<Rightarrow> conversion \<Rightarrow> string \<Rightarrow> jsval" where
  "convert H AsText v = JStr v"
| "convert H AsLowerCase v = JStr (toLowerCase v)"
| "convert H AsNumber v = JNum (parseNumber H v)"
| "convert H AsQuantity v = jsOr (JNum (parseNumber H v)) (JNum 1)"
| "convert H AsDate v = JStr (parseDate H v)"

definition salesMapping :: "(bool \<times> string \<times> conversion) list" where
  "salesMapping =
    [(False, ''productName'', AsText), (False, ''sku'', AsText), (False, ''skuName'', AsText),
     (False, ''quantity'', AsQuantity), (False, ''status'', AsLowerCase),
     (False, ''customerName'', AsText), (False, ''customerState'', AsText),
     (False, ''customerCity'', AsText), (False, ''customerPincode'', AsText),
     (False, ''wholesalePrice'', AsNumber), (False, ''sellingPrice'', AsNumber),
     (False, ''shippingCharge'', AsNumber)]"

definition paymentMapping :: "(bool \<times> string \<times> conversion) list" where
  "paymentMapping =
    [(True, ''productName'', AsText), (True, ''status'', AsLowerCase),
     (False, ''paymentMode'', AsText), (False, ''hsn'', AsText),
     (False, ''wholesalePrice'', AsNumber), (False, ''shippingCharge'', AsNumber),
     (False, ''tcs'', AsNumber), (False, ''tds'', AsNumber), (False, ''commission'', AsNumber),
     (False, ''shipperCharge'', AsNumber), (False, ''netAmount'', AsNumber),
     (True, ''customerCity'', AsText), (True, ''customerPincode'', AsText),
     (True, ''customerState'', AsText)]"

definition gstMapping :: "(bool \<times> string \<times> conversion) list" where
  "gstMapping =
    [(True, ''status'', AsLowerCase), (False, ''invoiceNumber'', AsText),
     (False, ''invoiceDate'', AsDate), (False, ''hsn'', AsText), (False, ''gstRate'', AsNumber),
     (True, ''sku'', AsText), (True, ''productName'', AsText), (True, ''quantity'', AsQuantity),
     (True, ''customerState'', AsText), (False, ''taxableValue'', AsNumber),
     (False, ''cgst'', AsNumber), (False, ''igst'', AsNumber), (False, ''sgst'', AsNumber),
     (False, ''invoiceAmount'', AsNumber)]"

definition refundMapping :: "(bool \<times> string \<times> conversion) list" where
  "refundMapping =
    [(False, ''refundAmount'', AsNumber), (False, ''deductionAmount'', AsNumber),
     (False, ''refundReason'', AsText), (False, ''refundDate'', AsDate)]"

fun kindMapping :: "fileType \<Rightarrow> (bool \<times> string \<times> conversion) list" where
  "kindMapping Sales = salesMapping"
| "kindMapping Payment = paymentMapping"
| "kindMapping Gst = gstMapping"
| "kindMapping Refund = refundMapping"

definition mapField ::
  "host \<Rightarrow> HeaderMapping \<Rightarrow> MergedRow \<Rightarrow> bool \<times> string \<times> conversion \<Rightarrow> MergedRow \<Rightarrow> MergedRow" where
  "mapField H headers row stmt mergedRow =
     (let onlyIfConfigured = fst stmt; f = fst (snd stmt); conv = snd (snd stmt) in
      if onlyIfConfigured \<and> header headers f = [] then mergedRow
      else setProp mergedRow f (convert H conv (getValue H row (header headers f))))"

text \<open>\<^verbatim>\<open>{ orderId, subOrderId, orderDate, ...row }\<close> followed by the statements of the kind.\<close>

definition mapRow ::
  "host \<Rightarrow> HeaderMapping \<Rightarrow> fileType \<Rightarrow> MergedRow \<Rightarrow> string \<Rightarrow> string \<Rightarrow> string \<Rightarrow> MergedRow" where
  "mapRow H headers uploadType row orderId' subOrderId' orderDate' =
     (let mergedRow = [(''orderId'', JStr orderId'), (''subOrderId'', JStr subOrderId'),
                       (''orderDate'', JStr orderDate')];
          mergedRow = fold (\<lambda>kv m. setProp m (fst kv) (snd kv)) row mergedRow
      in fold (mapField H headers row) (kindMapping uploadType) mergedRow)"

record progress =
  mergedRows' :: "MergedRow list"
  errorCount :: nat
  successCount :: nat
  duplicateCount :: nat
  processedKeys :: "string list"

definition processRow ::
  "host \<Rightarrow> HeaderMapping \<Rightarrow> fileType \<Rightarrow> MergedRow \<Rightarrow> progress \<Rightarrow> progress" where
  "processRow H headers uploadType row st =
     (let orderId' = getValue H row (header headers ''orderId'');
          sub = getValue H row (header headers ''subOrderId'');
          subOrderId' = (if sub \<noteq> [] then sub else orderId');
          orderDate' = parseDate H (getValue H row (header headers ''orderDate''))
      in if orderId' = [] \<or> trim orderId' = [] then st\<lparr>errorCount := errorCount st + 1\<rparr>
         else
           let key = uniqueKey orderId' subOrderId' in
           if key \<in> set (processedKeys st) then st\<lparr>duplicateCount := duplicateCount st + 1\<rparr>
           else st\<lparr>processedKeys := processedKeys st @ [key],
                    mergedRows' := mergedRows' st @
                      [mapRow H headers uploadType row orderId' subOrderId' orderDate'],
                    successCount := successCount st + 1\<rparr>)"

definition processRows :: "host \<Rightarrow> HeaderMapping \<Rightarrow> fileType \<Rightarrow> MergedRow list \<Rightarrow> progress" where
  "processRows H headers uploadType rows =
     fold (processRow H headers uploadType) rows
       \<lparr>mergedRows' = [], errorCount = 0, successCount = 0, duplicateCount = 0,
        processedKeys = []\<rparr>"

text \<open>
  The rows that one upload leaves in the master file: the file's rows are mapped, then
  merged into what the master file held.
\<close>

definition ingest ::
  "host \<Rightarrow> HeaderMapping \<Rightarrow> fileType \<Rightarrow> MergedRow list \<Rightarrow> MergedRow list \<Rightarrow> MergedRow list" where
  "ingest H headers uploadType existingRows rows =
     mergedRows H existingRows (mergedRows' (processRows H headers uploadType rows)) uploadType"

section \<open>Auxiliary notions for the statements\<close>

text \<open>What the \<^verbatim>\<open>try\<close> block of \<^verbatim>\<open>readMasterFile\<close> throws on a read attempt, if anything.\<close>

fun thrown :: "readAttempt \<Rightarrow> jsError option" where
  "thrown (UrlFails e) = Some e"
| "thrown (FetchFails e) = Some e"
| "thrown (ResponseNotOk statusText) = Some (newError (''Failed to fetch file: '' @ statusText))"
| "thrown (DecodeFails e) = Some e"
| "thrown (Decoded rows) = None"

text \<open>
  The order identifier and the key that \<^verbatim>\<open>processFile\<close> extracts from a row of the
  uploaded file.
\<close>

definition fileOrderId :: "host \<Rightarrow> HeaderMapping \<Rightarrow> MergedRow \<Rightarrow> string" where
  "fileOrderId H headers row = getValue H row (header headers ''orderId'')"

definition fileRowKey :: "host \<Rightarrow> HeaderMapping \<Rightarrow> MergedRow \<Rightarrow> string" where
  "fileRowKey H headers row =
     (let orderId' = getValue H row (header headers ''orderId'');
          sub = getValue H row (header headers ''subOrderId'')
      in uniqueKey orderId' (if sub \<noteq> [] then sub else orderId'))"

text \<open>The row that \<^verbatim>\<open>processFile\<close> hands to \<^verbatim>\<open>mergeIntoMasterFile\<close> for a row of the file.\<close>

definition mappedRow :: "host \<Rightarrow> HeaderMapping \<Rightarrow> fileType \<Rightarrow> MergedRow \<Rightarrow> MergedRow" where
  "mappedRow H headers uploadType row =
     (let orderId' = getValue H row (header headers ''orderId'');
          sub = getValue H row (header headers ''subOrderId'');
          subOrderId' = (if sub \<noteq> [] then sub else orderId');
          orderDate' = parseDate H (getValue H row (header headers ''orderDate''))
      in mapRow H headers uploadType row orderId' subOrderId' orderDate')"

text \<open>
  A comparator that orders strings by the codes of their characters. It stands for
  \<^verbatim>\<open>localeCompare\<close> in examples; it is used only on strings on which the two agree.
\<close>

fun compareCodes :: "string \<Rightarrow> string \<Rightarrow> int" where
  "compareCodes [] [] = 0"
| "compareCodes [] (y # ys) = - 1"
| "compareCodes (x # xs) [] = 1"
| "compareCodes (x # xs) (y # ys) =
     (if (of_char x :: nat) < of_char y then - 1
      else if (of_char y :: nat) < of_char x then 1
      else compareCodes xs ys)"

definition exampleHost :: host where
  "exampleHost =
     \<lparr>numberToString = (\<lambda>n. []), localeCompare = compareCodes,
      parseFloat = (\<lambda>s. None), dateToISODay = (\<lambda>s. None)\<rparr>"

text \<open>
  The comparators for which \<^verbatim>\<open>Array.prototype.sort\<close> has a defined result: any two
  strings are comparable, and the order is transitive.
\<close>

definition consistentComparator :: "(string \<Rightarrow> string \<Rightarrow> int) \<Rightarrow> bool" where
  "consistentComparator cmp =
     ((\<forall>a b. cmp a b \<le> 0 \<or> cmp b a \<le> 0) \<and>
      (\<forall>a b c. cmp a b \<le> 0 \<longrightarrow> cmp b c \<le> 0 \<longrightarrow> cmp a c \<le> 0))"

text \<open>Example values: a permission failure of the storage, and a storage with one file.\<close>

definition permissionDenied :: jsError where
  "permissionDenied =
     \<lparr>code = Some ''storage/unauthorized'',
      message = Some ''Firebase Storage: User does not have permission to access the object.'',
      name = Some ''FirebaseError'', statusCode = Some 403\<rparr>"

definition quotaExceeded :: jsError where
  "quotaExceeded =
     \<lparr>code = Some ''storage/quota-exceeded'',
      message = Some ''Firebase Storage: Quota on the bucket has been exceeded.'',
      name = Some ''FirebaseError'', statusCode = Some 402\<rparr>"

definition exampleStore :: storage where
  "exampleStore =
     (\<lambda>path. if path = ''companies/c1/platforms/p1/master.xlsx''
        then Decoded [[(''orderId'', JStr ''A1''), (''subOrderId'', JStr ''A1''),
                       (''status'', JStr ''returned''), (''gstRefund'', JNum 18)]]
        else UrlFails \<lparr>code = Some ''storage/object-not-found'', message = None,
                        name = None, statusCode = None\<rparr>)"

text \<open>
  A map from keys to rows is keyed when its keys are distinct and every row is stored
  under its own key.
\<close>

definition keyed :: "host \<Rightarrow> rowMap \<Rightarrow> bool" where
  "keyed H m = (distinct (map fst m) \<and> list_all (\<lambda>kr. rowKey H (snd kr) = fst kr) m)"

text \<open>
  Merging a list of rows, one after the other, into a record; the rows of a batch that
  \<^verbatim>\<open>mergeIntoMasterFile\<close> processes under a given key.
\<close>

definition mergeAll :: "fileType \<Rightarrow> MergedRow list \<Rightarrow> MergedRow \<Rightarrow> MergedRow" where
  "mergeAll ft rows existing = fold (\<lambda>newRow merged. mergeRowData merged newRow ft) rows existing"

definition rowsWithKey :: "host \<Rightarrow> string \<Rightarrow> MergedRow list \<Rightarrow> MergedRow list" where
  "rowsWithKey H key rows =
     filter (\<lambda>row. truthy (getProp row ''orderId'') \<and> rowKey H row = key) rows"

text \<open>
  What a merge with \<^verbatim>\<open>newRow\<close> does to the entry of a field other than \<^verbatim>\<open>subOrderId\<close>,
  as a function of the entry the record had.
\<close>

definition fieldStep :: "fileType \<Rightarrow> string \<Rightarrow> MergedRow \<Rightarrow> jsval option \<Rightarrow> jsval option" where
  "fieldStep ft f newRow x =
     (if writes ft newRow f then Some (getProp newRow f)
      else if f = ''orderId'' then Some (case x of None \<Rightarrow> JUndefined | Some v \<Rightarrow> v)
      else case x of Some v \<Rightarrow> Some v | None \<Rightarrow> map_of newRow f)"

text \<open>
  A function on entries that either sets a fixed value or fills an empty entry with a
  fixed entry.
\<close>

definition setsOrFills :: "(jsval option \<Rightarrow> jsval option) \<Rightarrow> bool" where
  "setsOrFills g =
     ((\<exists>v. \<forall>x. g x = Some v) \<or>
      (\<exists>c. \<forall>x. g x = (case x of Some y \<Rightarrow> Some y | None \<Rightarrow> c)))"

text \<open>
  A normalized row, as \<^verbatim>\<open>processFile\<close> builds it: an object (no key twice) with an
  \<^verbatim>\<open>orderId\<close> and a \<^verbatim>\<open>subOrderId\<close> that are not empty.
\<close>

definition normalizedRow :: "MergedRow \<Rightarrow> bool" where
  "normalizedRow row =
     (distinct (objectKeys row) \<and> truthy (getProp row ''orderId'') \<and>
      truthy (getProp row ''subOrderId''))"


section \<open>Properties of \<^verbatim>\<open>mergeRowData\<close>\<close>

subsection \<open>The value of every property after a merge\<close>

lemma assigns_Nil: "assigns n [] f = False"
  by (simp add: assigns_def)

lemma assigns_Cons:
  "assigns n (gf # as) f = ((snd gf = f \<and> passes (fst gf) (getProp n f)) \<or> assigns n as f)"
  by (simp add: assigns_def)

lemma assigns_append: "assigns n (as @ bs) f = (assigns n as f \<or> assigns n bs f)"
  by (simp add: assigns_def)

lemma map_of_setProp: "map_of (setProp m k v) f = (if f = k then Some v else map_of m f)"
  by (simp add: setProp_def update_conv')

lemma map_of_assignIf:
  "map_of (assignIf n gf m) f =
     (if snd gf = f \<and> passes (fst gf) (getProp n f) then Some (getProp n f) else map_of m f)"
  by (auto simp: assignIf_def map_of_setProp)

lemma map_of_fold_assignIf:
  "map_of (fold (assignIf n) as m) f =
     (if assigns n as f then Some (getProp n f) else map_of m f)"
proof (induction as arbitrary: m)
  case Nil
  then show ?case by (simp add: assigns_Nil)
next
  case (Cons a as)
  show ?case
    by (auto simp: Cons.IH map_of_assignIf assigns_Cons)
qed

lemma map_of_addMissing:
  "map_of (addMissing n k m) f =
     (case map_of m f of Some v \<Rightarrow> Some v
      | None \<Rightarrow> if f = k \<and> f \<noteq> ''orderId'' \<and> f \<noteq> ''subOrderId''
                then Some (getProp n f) else None)"
  by (auto simp: addMissing_def map_of_setProp hasProp_def split: option.splits)

lemma map_of_fold_addMissing:
  "map_of (fold (addMissing n) ks m) f =
     (case map_of m f of Some v \<Rightarrow> Some v
      | None \<Rightarrow> if f \<in> set ks \<and> f \<noteq> ''orderId'' \<and> f \<noteq> ''subOrderId''
                then Some (getProp n f) else None)"
proof (induction ks arbitrary: m)
  case Nil
  then show ?case by (simp split: option.splits)
next
  case (Cons k ks)
  show ?case
    by (auto simp: Cons.IH map_of_addMissing split: option.splits)
qed

lemma keys_getProp:
  "(if f \<in> set (objectKeys n) then Some (getProp n f) else None) = map_of n f"
proof (cases "map_of n f")
  case None
  then have "f \<notin> fst ` set n" by (simp add: map_of_eq_None_iff)
  with None show ?thesis by (simp add: objectKeys_def)
next
  case (Some v)
  then have "f \<in> fst ` set n" by (metis map_of_eq_None_iff option.distinct(1))
  with Some show ?thesis by (simp add: objectKeys_def getProp_def)
qed

lemma map_of_beforeOverflow:
  "map_of (beforeOverflow e n ft) f =
     (if writes ft n f then Some (getProp n f)
      else if f = ''orderId'' then Some (getProp e ''orderId'')
      else if f = ''subOrderId''
        then Some (jsOr (getProp e ''subOrderId'') (getProp e ''orderId''))
      else map_of e f)"
  by (simp add: beforeOverflow_def map_of_fold_assignIf map_of_setProp writes_def assigns_append)

lemma mergeRowData_overflow:
  "mergeRowData e n ft = fold (addMissing n) (objectKeys n) (beforeOverflow e n ft)"
  by (simp add: mergeRowData_def beforeOverflow_def Let_def)

lemma map_of_mergeRowData:
  "map_of (mergeRowData e n ft) f =
     (if writes ft n f then Some (getProp n f)
      else if f = ''orderId'' then Some (getProp e ''orderId'')
      else if f = ''subOrderId''
        then Some (jsOr (getProp e ''subOrderId'') (getProp e ''orderId''))
      else case map_of e f of Some v \<Rightarrow> Some v | None \<Rightarrow> map_of n f)"
proof (cases "writes ft n f \<or> f = ''orderId'' \<or> f = ''subOrderId''")
  case True
  then show ?thesis
    by (auto simp: mergeRowData_overflow map_of_fold_addMissing map_of_beforeOverflow)
next
  case False
  then have "map_of (mergeRowData e n ft) f =
      (case map_of e f of Some v \<Rightarrow> Some v
       | None \<Rightarrow> if f \<in> set (objectKeys n) then Some (getProp n f) else None)"
    by (simp add: mergeRowData_overflow map_of_fold_addMissing map_of_beforeOverflow)
  also have "\<dots> = (case map_of e f of Some v \<Rightarrow> Some v | None \<Rightarrow> map_of n f)"
    by (simp only: keys_getProp)
  finally show ?thesis using False by simp
qed

lemma getProp_mergeRowData:
  "getProp (mergeRowData e n ft) f =
     (if writes ft n f then getProp n f
      else if f = ''orderId'' then getProp e ''orderId''
      else if f = ''subOrderId'' then jsOr (getProp e ''subOrderId'') (getProp e ''orderId'')
      else if hasProp e f then getProp e f else getProp n f)"
  by (simp add: getProp_def [of "mergeRowData e n ft"] map_of_mergeRowData hasProp_def)
     (auto simp: getProp_def split: option.splits)

lemma assigns_notin: "f \<notin> snd ` set as \<Longrightarrow> \<not> assigns n as f"
  by (auto simp: assigns_def list_ex_iff)

lemma writes_status: "writes ft n ''status'' \<longleftrightarrow> getProp n ''status'' \<noteq> JUndefined"
proof -
  have "assigns n (kindAssignments ft) ''status'' \<Longrightarrow> getProp n ''status'' \<noteq> JUndefined"
    by (cases ft)
      (auto simp: assigns_def salesAssignments_def paymentAssignments_def
        gstAssignments_def refundAssignments_def)
  then show ?thesis
    by (auto simp: writes_def assigns_append alwaysAssignments_def assigns_Cons assigns_Nil)
qed

lemma writes_gstRefund:
  "writes ft n ''gstRefund'' \<longleftrightarrow> passes IfNotNullish (getProp n ''gstRefund'')"
proof -
  have "assigns n (kindAssignments ft) ''gstRefund'' \<Longrightarrow>
        passes IfNotNullish (getProp n ''gstRefund'')"
    by (cases ft)
      (auto simp: assigns_def salesAssignments_def paymentAssignments_def
        gstAssignments_def refundAssignments_def)
  then show ?thesis
    by (auto simp: writes_def assigns_append alwaysAssignments_def assigns_Cons assigns_Nil)
qed

subsection \<open>Fields that a kind does not assign\<close>

text \<open>
  Claim C1, as the code has it: a merge of kind \<open>ft\<close> leaves unchanged every property
  that the existing record already has and that is neither assigned by the branch of
  \<open>ft\<close> nor one of \<^verbatim>\<open>status\<close>, \<^verbatim>\<open>gstRefund\<close> and \<^verbatim>\<open>subOrderId\<close>. The branch of a kind
  assigns more than the fields the kind owns: the payment branch also assigns
  \<^verbatim>\<open>wholesalePrice\<close>, \<^verbatim>\<open>shippingCharge\<close>, \<^verbatim>\<open>customerCity\<close>, \<^verbatim>\<open>customerPincode\<close>,
  \<^verbatim>\<open>customerState\<close> and \<^verbatim>\<open>productName\<close>, the tax branch \<^verbatim>\<open>sku\<close>, \<^verbatim>\<open>productName\<close>,
  \<^verbatim>\<open>quantity\<close> and \<^verbatim>\<open>customerState\<close>.
\<close>

theorem mergeRowData_frame:
  assumes "hasProp existing f"
    and "f \<notin> snd ` set (kindAssignments ft)"
    and "f \<noteq> ''status''" and "f \<noteq> ''gstRefund''" and "f \<noteq> ''subOrderId''"
  shows "getProp (mergeRowData existing newRow ft) f = getProp existing f"
proof -
  have "f \<notin> snd ` set alwaysAssignments"
    using assms(3,4) by (auto simp: alwaysAssignments_def)
  with assms(2) have "\<not> writes ft newRow f"
    by (simp add: writes_def assigns_append assigns_notin)
  with assms(1,5) show ?thesis
    by (simp add: getProp_mergeRowData)
qed

text \<open>
  An instance: a payment row that carries a \<^verbatim>\<open>sku\<close> does not change the \<^verbatim>\<open>sku\<close> of
  the record.
\<close>

theorem mergeRowData_frame_witness:
  "hasProp [(''orderId'', JStr ''A1''), (''subOrderId'', JStr ''A1''),
            (''sku'', JStr ''SKU001'')] ''sku'' \<and>
   ''sku'' \<notin> snd ` set (kindAssignments Payment) \<and>
   getProp (mergeRowData
       [(''orderId'', JStr ''A1''), (''subOrderId'', JStr ''A1''), (''sku'', JStr ''SKU001'')]
       [(''orderId'', JStr ''A1''), (''subOrderId'', JStr ''A1''), (''sku'', JStr ''OTHER'')]
       Payment) ''sku'' = JStr ''SKU001''"
proof -
  have h: "hasProp [(''orderId'', JStr ''A1''), (''subOrderId'', JStr ''A1''),
                    (''sku'', JStr ''SKU001'')] ''sku''"
    by (simp add: hasProp_def)
  have k: "''sku'' \<notin> snd ` set (kindAssignments Payment)"
    by (simp add: paymentAssignments_def)
  show ?thesis
    using h k mergeRowData_frame [OF h k,
        of "[(''orderId'', JStr ''A1''), (''subOrderId'', JStr ''A1''), (''sku'', JStr ''OTHER'')]"]
    by (simp add: getProp_def)
qed

text \<open>
  Claim C1 as stated fails: a payment row with a product name and a wholesale price
  replaces both in a record that a sales file has filled.
\<close>

theorem payment_merge_overwrites_sales_fields:
  "getProp [(''orderId'', JStr ''A1''), (''subOrderId'', JStr ''A1''),
            (''productName'', JStr ''Widget''), (''wholesalePrice'', JNum 1000)]
     ''productName'' = JStr ''Widget'' \<and>
   getProp (mergeRowData
      [(''orderId'', JStr ''A1''), (''subOrderId'', JStr ''A1''),
       (''productName'', JStr ''Widget''), (''wholesalePrice'', JNum 1000)]
      [(''orderId'', JStr ''A1''), (''subOrderId'', JStr ''A1''),
       (''productName'', JStr ''Gadget''), (''wholesalePrice'', JNum 0)] Payment)
     ''productName'' = JStr ''Gadget'' \<and>
   getProp (mergeRowData
      [(''orderId'', JStr ''A1''), (''subOrderId'', JStr ''A1''),
       (''productName'', JStr ''Widget''), (''wholesalePrice'', JNum 1000)]
      [(''orderId'', JStr ''A1''), (''subOrderId'', JStr ''A1''),
       (''productName'', JStr ''Gadget''), (''wholesalePrice'', JNum 0)] Payment)
     ''wholesalePrice'' = JNum 0"
  by code_simp

subsection \<open>Empty incoming values\<close>

text \<open>
  Claim C2 at the example of the specification: the record holds \<^verbatim>\<open>netAmount\<close> 950
  and a payment file brings the same order with an empty \<^verbatim>\<open>Net Amt\<close> cell. The cell is
  parsed to 0, which passes the guard of the merge, and the record ends with
  \<^verbatim>\<open>netAmount\<close> 0.
\<close>

theorem empty_cell_erases_netAmount:
  "ingest H [(''orderId'', ''Order ID''), (''netAmount'', ''Net Amt'')] Payment
     [[(''orderId'', JStr ''A1''), (''subOrderId'', JStr ''A1''), (''netAmount'', JNum 950)]]
     [[(''Order ID'', JStr ''A1''), (''Net Amt'', JStr [])]] =
   [[(''orderId'', JStr ''A1''), (''subOrderId'', JStr ''A1''), (''netAmount'', JNum 0),
     (''commission'', JNum 0), (''tcs'', JNum 0), (''tds'', JNum 0), (''shipperCharge'', JNum 0),
     (''wholesalePrice'', JNum 0), (''shippingCharge'', JNum 0), (''orderDate'', JStr []),
     (''Order ID'', JStr ''A1''), (''Net Amt'', JStr []), (''paymentMode'', JStr []),
     (''hsn'', JStr [])]]"
  by code_simp

subsection \<open>The fields \<^verbatim>\<open>status\<close> and \<^verbatim>\<open>gstRefund\<close>\<close>

text \<open>
  For every kind of file, \<^verbatim>\<open>status\<close> is replaced exactly when the incoming value is not
  \<^verbatim>\<open>undefined\<close>, and \<^verbatim>\<open>gstRefund\<close> exactly when it is neither \<^verbatim>\<open>undefined\<close> nor \<^verbatim>\<open>null\<close>.
\<close>

lemma status_after_merge:
  "getProp (mergeRowData existing newRow ft) ''status'' =
     (if getProp newRow ''status'' \<noteq> JUndefined then getProp newRow ''status''
      else if hasProp existing ''status'' then getProp existing ''status''
      else getProp newRow ''status'')"
  by (simp add: getProp_mergeRowData writes_status)

lemma gstRefund_after_merge:
  "getProp (mergeRowData existing newRow ft) ''gstRefund'' =
     (if getProp newRow ''gstRefund'' \<noteq> JUndefined \<and> getProp newRow ''gstRefund'' \<noteq> JNull
      then getProp newRow ''gstRefund''
      else if hasProp existing ''gstRefund'' then getProp existing ''gstRefund''
      else getProp newRow ''gstRefund'')"
  by (simp add: getProp_mergeRowData writes_gstRefund)

text \<open>
  Claim C6 at an incoming row whose \<^verbatim>\<open>status\<close> is the empty string, as a sales file with
  an empty status cell gives it: the status of the record is replaced by the empty
  string.
\<close>

theorem empty_status_erases_status:
  "getProp (mergeRowData
      [(''orderId'', JStr ''A1''), (''subOrderId'', JStr ''A1''), (''status'', JStr ''delivered'')]
      [(''orderId'', JStr ''A1''), (''subOrderId'', JStr ''A1''), (''status'', JStr [])] Sales)
     ''status'' = JStr []"
  by code_simp

section \<open>Properties of the identity key\<close>

lemma isSpace_toLowerChar: "isSpace (toLowerChar c) = isSpace c"
proof -
  have "(of_char (char_of (of_char c + 32 :: nat)) :: nat) = (of_char c + 32) mod 256"
    by simp
  then show ?thesis
    by (auto simp: toLowerChar_def isSpace_def Let_def)
qed

lemma trimStart_toLowerCase: "trimStart (toLowerCase s) = toLowerCase (trimStart s)"
  by (simp add: trimStart_def toLowerCase_def dropWhile_map comp_def isSpace_toLowerChar)

lemma trimEnd_toLowerCase: "trimEnd (toLowerCase s) = toLowerCase (trimEnd s)"
  by (simp add: trimEnd_def toLowerCase_def dropWhile_map comp_def isSpace_toLowerChar rev_map)

lemma not_isSpace_underscore: "\<not> isSpace (CHR ''_'')"
  by (simp add: isSpace_def)

lemma trim_around_underscore: "trim (a @ ''_'' @ b) = trimStart a @ ''_'' @ trimEnd b"
  by (simp add: trim_def trimStart_def trimEnd_def dropWhile_append3 not_isSpace_underscore)

lemma toLowerCase_key:
  "toLowerCase (a @ ''_'' @ b) = toLowerCase a @ ''_'' @ toLowerCase b"
  by (simp add: toLowerCase_def toLowerChar_def)

lemma uniqueKey_parts:
  "uniqueKey orderId' subOrderId' =
     toLowerCase (trimStart orderId') @ ''_'' @ toLowerCase (trimEnd subOrderId')"
  by (simp only: uniqueKey_def toLowerCase_key trim_around_underscore
      trimStart_toLowerCase trimEnd_toLowerCase)

lemma trimEnd_id: "s = [] \<or> \<not> isSpace (last s) \<Longrightarrow> trimEnd s = s"
  by (cases s rule: rev_cases) (auto simp: trimEnd_def)

lemma trimStart_id: "s = [] \<or> \<not> isSpace (hd s) \<Longrightarrow> trimStart s = s"
  by (cases s) (auto simp: trimStart_def)


lemma trim_no_trailing: "s = [] \<or> \<not> isSpace (last s) \<Longrightarrow> trim s = trimStart s"
proof (cases "trimStart s = []")
  case True
  then show ?thesis by (simp add: trim_def trimEnd_def)
next
  case False
  assume a: "s = [] \<or> \<not> isSpace (last s)"
  from False have "s \<noteq> []" by (auto simp: trimStart_def)
  with a have "\<not> isSpace (last s)" by simp
  moreover from False have "last (trimStart s) = last s"
    unfolding trimStart_def by (induction s) (auto split: if_splits)
  ultimately show ?thesis using False by (simp add: trim_def trimEnd_id)
qed

lemma trim_no_leading: "s = [] \<or> \<not> isSpace (hd s) \<Longrightarrow> trim s = trimEnd s"
  by (simp add: trim_def trimStart_id)

text \<open>
  Claim C5, as the code has it. The key of a row in \<^verbatim>\<open>mergeIntoMasterFile\<close> is the key
  that \<^verbatim>\<open>processFile\<close> computes from the strings of the two identifiers, with
  \<^verbatim>\<open>subOrderId\<close> replaced by \<^verbatim>\<open>orderId\<close> when it is empty. The concatenation is trimmed
  as a whole: white space goes only from the start of \<^verbatim>\<open>orderId\<close> and from the end of
  \<^verbatim>\<open>subOrderId\<close>. The key is that of the specification when \<^verbatim>\<open>orderId\<close> does not end and
  \<^verbatim>\<open>subOrderId\<close> does not start with white space, and identifiers that differ only in
  letter case have the same key. White space and letter case are those of JavaScript on
  the code units U+0000 to U+00FF, of which the strings of the model are made.
\<close>

theorem identity_key_shape:
  "rowKey H row =
     uniqueKey (jsToString H (getProp row ''orderId''))
       (jsToString H (jsOr (getProp row ''subOrderId'') (getProp row ''orderId''))) \<and>
   uniqueKey orderId' subOrderId' =
     toLowerCase (trimStart orderId') @ ''_'' @ toLowerCase (trimEnd subOrderId') \<and>
   ((orderId' = [] \<or> \<not> isSpace (last orderId')) \<and>
    (subOrderId' = [] \<or> \<not> isSpace (hd subOrderId')) \<longrightarrow>
      uniqueKey orderId' subOrderId' = specIdentityKey orderId' subOrderId') \<and>
   (toLowerCase orderId' = toLowerCase a \<and> toLowerCase subOrderId' = toLowerCase b \<longrightarrow>
      uniqueKey orderId' subOrderId' = uniqueKey a b)"
proof (intro conjI impI)
  show "rowKey H row =
     uniqueKey (jsToString H (getProp row ''orderId''))
       (jsToString H (jsOr (getProp row ''subOrderId'') (getProp row ''orderId'')))"
    by (simp add: rowKey_def uniqueKey_def compositeKey_def)
  show "uniqueKey orderId' subOrderId' =
     toLowerCase (trimStart orderId') @ ''_'' @ toLowerCase (trimEnd subOrderId')"
    by (rule uniqueKey_parts)
  show "uniqueKey orderId' subOrderId' = specIdentityKey orderId' subOrderId'"
    if "(orderId' = [] \<or> \<not> isSpace (last orderId')) \<and>
        (subOrderId' = [] \<or> \<not> isSpace (hd subOrderId'))"
    using that by (simp add: uniqueKey_parts specIdentityKey_def trim_no_trailing trim_no_leading)
  show "uniqueKey orderId' subOrderId' = uniqueKey a b"
    if "toLowerCase orderId' = toLowerCase a \<and> toLowerCase subOrderId' = toLowerCase b"
    using that by (simp add: uniqueKey_def toLowerCase_def)
qed

text \<open>
  The example of the specification: \<^verbatim>\<open>ORD1\<close>, \<^verbatim>\<open>SUB1\<close> and \<^verbatim>\<open>ord1\<close>, \<^verbatim>\<open>sub1\<close>.
\<close>

theorem identity_key_shape_witness:
  "uniqueKey ''ORD1'' ''SUB1'' = specIdentityKey ''ORD1'' ''SUB1'' \<and>
   uniqueKey ''ORD1'' ''SUB1'' = uniqueKey ''ord1'' ''sub1'' \<and>
   uniqueKey ''ORD1'' ''SUB1'' = ''ord1_sub1''"
proof -
  have 1: "(''ORD1'' = [] \<or> \<not> isSpace (last ''ORD1'')) \<and>
           (''SUB1'' = [] \<or> \<not> isSpace (hd ''SUB1''))"
    by (simp add: isSpace_def)
  have 2: "toLowerCase ''ORD1'' = toLowerCase ''ord1'' \<and>
           toLowerCase ''SUB1'' = toLowerCase ''sub1''"
    by code_simp
  have 3: "specIdentityKey ''ORD1'' ''SUB1'' = ''ord1_sub1''"
    by code_simp
  note ks = identity_key_shape [of exampleHost "[]" "''ORD1''" "''SUB1''" "''ord1''" "''sub1''"]
  from ks 1 have 4: "uniqueKey ''ORD1'' ''SUB1'' = specIdentityKey ''ORD1'' ''SUB1''"
    by blast
  from ks 2 have 5: "uniqueKey ''ORD1'' ''SUB1'' = uniqueKey ''ord1'' ''sub1''"
    by blast
  from 3 4 5 show ?thesis by simp
qed

text \<open>
  Claim C5 as stated fails for an \<^verbatim>\<open>orderId\<close> that ends with a blank: the code keeps the
  blank inside the key.
\<close>

theorem identity_key_keeps_inner_space:
  "uniqueKey ''A1 '' ''S1'' = ''a1 _s1'' \<and> specIdentityKey ''A1 '' ''S1'' = ''a1_s1'' \<and>
   rowKey exampleHost [(''orderId'', JStr ''A1 ''), (''subOrderId'', JStr ''S1'')] = ''a1 _s1''"
  by code_simp

text \<open>Two rows that differ only in letter case end in one record.\<close>

lemma case_variants_one_record:
  "map (\<lambda>r. getProp r ''orderId'')
     (mergedRows H []
        [[(''orderId'', JStr ''ORD1''), (''subOrderId'', JStr ''SUB1''), (''sku'', JStr ''X'')],
         [(''orderId'', JStr ''ord1''), (''subOrderId'', JStr ''sub1''), (''sku'', JStr ''Y'')]]
        Sales) = [JStr ''ORD1'']"
  by code_simp

text \<open>
  Trimming and lower-casing follow JavaScript on the whole of the code units modelled, not
  only on ASCII: a no-break space (U+00A0) around the concatenation is trimmed, and
  \<^verbatim>\<open>U+00C9\<close> (E with acute) is folded to \<^verbatim>\<open>U+00E9\<close>, so that two rows that differ only in the
  case of this letter end in one record; the multiplication sign U+00D7 and the sharp s
  U+00DF are left as they are.
\<close>

lemma identity_key_latin1:
  "rowKey exampleHost
     [(''orderId'', JStr [CHR 0xA0, CHR ''A'', CHR ''1'']),
      (''subOrderId'', JStr [CHR ''S'', CHR ''1'', CHR 0xA0])] = ''a1_s1'' \<and>
   uniqueKey [CHR 0xC9, CHR ''1''] [CHR 0xC9, CHR ''1''] =
     uniqueKey [CHR 0xE9, CHR ''1''] [CHR 0xE9, CHR ''1''] \<and>
   toLowerCase [CHR 0xC9, CHR 0xD7, CHR 0xDF, CHR 0xDE] = [CHR 0xE9, CHR 0xD7, CHR 0xDF, CHR 0xFE] \<and>
   length (mergedRows exampleHost []
      [[(''orderId'', JStr [CHR 0xC9, CHR ''1'']), (''subOrderId'', JStr [CHR 0xC9, CHR ''1''])],
       [(''orderId'', JStr [CHR 0xE9, CHR ''1'']), (''subOrderId'', JStr [CHR 0xE9, CHR ''1''])]]
      Sales) = 1"
  by code_simp

section \<open>Properties of \<^verbatim>\<open>readMasterFile\<close>\<close>

text \<open>
  Claim C4, as the code has it. When the read attempt throws, \<^verbatim>\<open>readMasterFile\<close> returns
  the empty list for everything its \<^verbatim>\<open>catch\<close> block takes for a missing file, which
  includes the codes \<^verbatim>\<open>storage/unauthorized\<close> and \<^verbatim>\<open>storage/unknown\<close>, and for every
  failure that it does not take for a CORS failure; a failure taken for a CORS failure is
  replaced by one fixed error. \<^verbatim>\<open>mergeIntoMasterFile\<close> catches that error as well and
  goes on from an empty master file, so that no failed read ends an ingestion.
\<close>

theorem readMasterFile_failures:
  assumes "thrown attempt = Some error"
  shows "(looksNotFound error \<longrightarrow> readMasterFile attempt = Inr []) \<and>
         (\<not> looksCors error \<longrightarrow> readMasterFile attempt = Inr []) \<and>
         (\<not> looksNotFound error \<and> looksCors error \<longrightarrow> readMasterFile attempt = Inl corsError) \<and>
         (case mergeIntoMasterFile H (store(getMasterFilePath c p := attempt)) None c p newRows ft of
            Inl e \<Rightarrow> False
          | Inr res \<Rightarrow>
              fst res (getMasterFilePath c p) =
                Decoded (xlsxRoundTrip (mergedRows H [] newRows ft)))"
  using assms
  by (cases attempt) (auto simp: catchBlock_def mergeIntoMasterFile_def Let_def)

text \<open>An instance: the storage refuses the read for lack of permission.\<close>

theorem readMasterFile_failures_witness:
  "thrown (UrlFails permissionDenied) = Some permissionDenied \<and>
   looksNotFound permissionDenied \<and>
   readMasterFile (UrlFails permissionDenied) = Inr []"
proof -
  have 1: "thrown (UrlFails permissionDenied) = Some permissionDenied" by simp
  have 2: "looksNotFound permissionDenied"
    by (simp add: looksNotFound_def permissionDenied_def)
  from 1 2 readMasterFile_failures [OF 1, where H = exampleHost and store = "\<lambda>_. Decoded []"
      and c = "''c''" and p = "''p''" and newRows = "[]" and ft = Sales]
  show ?thesis by blast
qed

text \<open>
  Claim C4 as stated fails: a permission failure and an exceeded quota both give the
  empty list, and so does a file that exists and holds no rows.
\<close>

theorem read_failures_give_empty_ledger:
  "readMasterFile (UrlFails permissionDenied) = Inr [] \<and>
   readMasterFile (UrlFails quotaExceeded) = Inr [] \<and>
   readMasterFile (Decoded []) = Inr []"
  by code_simp

section \<open>Properties of the dashboard read path\<close>

text \<open>
  Claim C10: the conversion of a row of the master file to an \<^verbatim>\<open>Order\<close> sets
  \<^verbatim>\<open>gstRefund\<close> to 0 whatever the row holds, so every order that
  \<^verbatim>\<open>loadOrdersFromMasterFiles\<close> returns has \<^verbatim>\<open>gstRefund\<close> 0.
\<close>

theorem loaded_gstRefund_zero:
  "gstRefund (mergedRowToOrder H row c p) = JNum 0 \<and>
   (\<forall>order \<in> set (loadOrdersFromMasterFiles H store companies uploadedFiles).
      gstRefund order = JNum 0)"
  by (auto simp: mergedRowToOrder_def loadOrdersFromMasterFiles_def loadOne_def Let_def
      split: sum.splits if_splits)

text \<open>
  An instance: the master file holds a returned order with \<^verbatim>\<open>gstRefund\<close> 18; the order
  is loaded, its raw data still has the 18, its \<^verbatim>\<open>gstRefund\<close> is 0.
\<close>

lemma exampleStore_loaded:
  "map (\<lambda>order. (orderId order, getProp (rawData order) ''gstRefund''))
     (loadOrdersFromMasterFiles exampleHost exampleStore [(''c1'', [''p1''])] []) =
   [(JStr ''A1'', JNum 18)]"
  by code_simp

theorem loaded_gstRefund_zero_witness:
  "map (\<lambda>order. (orderId order, getProp (rawData order) ''gstRefund'', gstRefund order))
     (loadOrdersFromMasterFiles exampleHost exampleStore [(''c1'', [''p1''])] []) =
   [(JStr ''A1'', JNum 18, JNum 0)]"
proof -
  have "list_all (\<lambda>order. gstRefund order = JNum 0)
          (loadOrdersFromMasterFiles exampleHost exampleStore [(''c1'', [''p1''])] [])"
    using loaded_gstRefund_zero [where H = exampleHost and row = "[]" and c = "[]" and p = "[]"
        and store = exampleStore and companies = "[(''c1'', [''p1''])]" and uploadedFiles = "[]"]
    by (simp add: list_all_iff)
  with exampleStore_loaded show ?thesis
    by (auto simp: list_all_iff map_eq_Cons_conv)
qed

section \<open>Properties of \<^verbatim>\<open>processFile\<close>\<close>

lemma processRows_snoc:
  "processRows H headers ut (rows @ [row]) = processRow H headers ut row (processRows H headers ut rows)"
  by (simp add: processRows_def)

lemma processedKeys_fold:
  "set (processedKeys (fold (processRow H headers ut) rows st)) =
     set (processedKeys st) \<union>
     {fileRowKey H headers r | r. r \<in> set rows \<and> trim (fileOrderId H headers r) \<noteq> []}"
proof (induction rows arbitrary: st)
  case Nil
  then show ?case by simp
next
  case (Cons r rows)
  have "set (processedKeys (processRow H headers ut r st)) =
        set (processedKeys st) \<union> (if trim (fileOrderId H headers r) \<noteq> [] then {fileRowKey H headers r} else {})"
    by (auto simp: processRow_def Let_def fileRowKey_def fileOrderId_def trim_def trimStart_def trimEnd_def)
  then show ?case
    by (auto simp: Cons.IH)
qed

lemma processedKeys_processRows:
  "set (processedKeys (processRows H headers ut rows)) =
     {fileRowKey H headers r | r. r \<in> set rows \<and> trim (fileOrderId H headers r) \<noteq> []}"
  by (simp add: processRows_def processedKeys_fold)

lemma processRow_bump:
  "processRow H headers ut r (st\<lparr>duplicateCount := duplicateCount st + 1\<rparr>) =
     (processRow H headers ut r st)
       \<lparr>duplicateCount := duplicateCount (processRow H headers ut r st) + 1\<rparr>"
  by (simp add: processRow_def Let_def)

lemma fold_processRow_bump:
  "fold (processRow H headers ut) rows (st\<lparr>duplicateCount := duplicateCount st + 1\<rparr>) =
     (fold (processRow H headers ut) rows st)
       \<lparr>duplicateCount := duplicateCount (fold (processRow H headers ut) rows st) + 1\<rparr>"
proof (induction rows arbitrary: st)
  case Nil
  then show ?case by simp
next
  case (Cons r rows)
  show ?case
    by (simp only: fold_simps processRow_bump Cons.IH)
qed

lemma map_of_fold_setProp_other:
  "k \<notin> fst ` set kvs \<Longrightarrow>
   map_of (fold (\<lambda>kv m. setProp m (fst kv) (snd kv)) kvs m) k = map_of m k"
  by (induction kvs arbitrary: m) (auto simp: map_of_setProp)

lemma map_of_mapField_other:
  "k \<noteq> fst (snd stmt) \<Longrightarrow> map_of (mapField H headers row stmt m) k = map_of m k"
  by (simp add: mapField_def Let_def map_of_setProp)

lemma map_of_fold_mapField_other:
  "k \<notin> (fst \<circ> snd) ` set stmts \<Longrightarrow>
   map_of (fold (mapField H headers row) stmts m) k = map_of m k"
  by (induction stmts arbitrary: m) (auto simp: map_of_mapField_other)

lemma ids_not_mapped:
  "''orderId'' \<notin> (fst \<circ> snd) ` set (kindMapping ut)"
  "''subOrderId'' \<notin> (fst \<circ> snd) ` set (kindMapping ut)"
  by (cases ut; simp add: salesMapping_def paymentMapping_def gstMapping_def refundMapping_def)+

lemma mapRow_ids:
  assumes "\<not> hasProp row ''orderId''" "\<not> hasProp row ''subOrderId''"
  shows "getProp (mapRow H headers ut row oid sub od) ''orderId'' = JStr oid"
    and "getProp (mapRow H headers ut row oid sub od) ''subOrderId'' = JStr sub"
proof -
  let ?m0 = "[(''orderId'', JStr oid), (''subOrderId'', JStr sub), (''orderDate'', JStr od)]"
  let ?m1 = "fold (\<lambda>kv m. setProp m (fst kv) (snd kv)) row ?m0"
  have m: "mapRow H headers ut row oid sub od = fold (mapField H headers row) (kindMapping ut) ?m1"
    by (simp add: mapRow_def Let_def)
  from assms have k: "''orderId'' \<notin> fst ` set row" "''subOrderId'' \<notin> fst ` set row"
    by (simp_all add: hasProp_def map_of_eq_None_iff)
  have "map_of (mapRow H headers ut row oid sub od) ''orderId'' = map_of ?m1 ''orderId''"
    unfolding m by (rule map_of_fold_mapField_other) (rule ids_not_mapped)
  also have "\<dots> = map_of ?m0 ''orderId''"
    using k(1) by (rule map_of_fold_setProp_other)
  finally show "getProp (mapRow H headers ut row oid sub od) ''orderId'' = JStr oid"
    by (simp add: getProp_def)
  have "map_of (mapRow H headers ut row oid sub od) ''subOrderId'' = map_of ?m1 ''subOrderId''"
    unfolding m by (rule map_of_fold_mapField_other) (rule ids_not_mapped)
  also have "\<dots> = map_of ?m0 ''subOrderId''"
    using k(2) by (rule map_of_fold_setProp_other)
  finally show "getProp (mapRow H headers ut row oid sub od) ''subOrderId'' = JStr sub"
    by (simp add: getProp_def)
qed

lemma mappedRow_key:
  assumes "\<not> hasProp row ''orderId''" "\<not> hasProp row ''subOrderId''"
  shows "rowKey H (mappedRow H headers ut row) = fileRowKey H headers row"
  using assms
  by (simp add: mappedRow_def Let_def rowKey_def compositeKey_def mapRow_ids fileRowKey_def
      uniqueKey_def jsOr_def)

text \<open>
  Claim C3, as the code has it. \<^verbatim>\<open>processFile\<close> compares the key that it computes from
  the \<^verbatim>\<open>orderId\<close> and \<^verbatim>\<open>subOrderId\<close> it has extracted. A row whose key is that of an
  earlier accepted row of the same file is skipped, wherever it stands in the file: the
  duplicate tally grows by one, the other tallies and the rows handed to
  \<^verbatim>\<open>mergeIntoMasterFile\<close> are those of the file without the row, and so is the master
  file. The key is the one under which the row would be stored, unless the file itself
  has a column named \<^verbatim>\<open>orderId\<close> or \<^verbatim>\<open>subOrderId\<close>.
\<close>

theorem duplicate_in_file_discarded:
  assumes "earlier \<in> set before"
    and "trim (fileOrderId H headers earlier) \<noteq> []"
    and "trim (fileOrderId H headers row) \<noteq> []"
    and "fileRowKey H headers row = fileRowKey H headers earlier"
  shows "mergedRows' (processRows H headers ut (before @ row # after)) =
           mergedRows' (processRows H headers ut (before @ after)) \<and>
         duplicateCount (processRows H headers ut (before @ row # after)) =
           duplicateCount (processRows H headers ut (before @ after)) + 1 \<and>
         successCount (processRows H headers ut (before @ row # after)) =
           successCount (processRows H headers ut (before @ after)) \<and>
         errorCount (processRows H headers ut (before @ row # after)) =
           errorCount (processRows H headers ut (before @ after)) \<and>
         ingest H headers ut existingRows (before @ row # after) =
           ingest H headers ut existingRows (before @ after) \<and>
         (\<not> hasProp row ''orderId'' \<and> \<not> hasProp row ''subOrderId'' \<longrightarrow>
            rowKey H (mappedRow H headers ut row) = fileRowKey H headers row)"
proof -
  let ?st = "processRows H headers ut before"
  have k: "fileRowKey H headers row \<in> set (processedKeys ?st)"
    using assms(1,2,4) by (auto simp: processedKeys_processRows)
  have o: "fileOrderId H headers row \<noteq> []"
    using assms(3) by (auto simp: trim_def trimStart_def trimEnd_def)
  have step: "processRow H headers ut row ?st = ?st\<lparr>duplicateCount := duplicateCount ?st + 1\<rparr>"
    using k o assms(3)
    by (simp add: processRow_def Let_def fileRowKey_def fileOrderId_def)
  have "processRows H headers ut (before @ row # after) =
        fold (processRow H headers ut) after (processRow H headers ut row ?st)"
    by (simp add: processRows_def)
  also have "\<dots> = (fold (processRow H headers ut) after ?st)
       \<lparr>duplicateCount := duplicateCount (fold (processRow H headers ut) after ?st) + 1\<rparr>"
    by (simp only: step fold_processRow_bump)
  also have "fold (processRow H headers ut) after ?st = processRows H headers ut (before @ after)"
    by (simp add: processRows_def)
  finally have "processRows H headers ut (before @ row # after) =
      (processRows H headers ut (before @ after))
        \<lparr>duplicateCount := duplicateCount (processRows H headers ut (before @ after)) + 1\<rparr>" .
  then show ?thesis
    by (simp add: ingest_def mappedRow_key)
qed

text \<open>
  An instance: the second of three rows repeats the order of the first in lower case.
\<close>

theorem duplicate_in_file_discarded_witness:
  "map (\<lambda>r. getProp r ''productName'')
     (ingest exampleHost [(''orderId'', ''Order ID''), (''productName'', ''Item'')] Sales []
        ([[(''Order ID'', JStr ''A1''), (''Item'', JStr ''Widget'')]] @
         [(''Order ID'', JStr ''a1''), (''Item'', JStr ''Gadget'')] #
         [[(''Order ID'', JStr ''B2''), (''Item'', JStr ''Bolt'')]])) =
     [JStr ''Widget'', JStr ''Bolt''] \<and>
   duplicateCount
     (processRows exampleHost [(''orderId'', ''Order ID''), (''productName'', ''Item'')] Sales
        ([[(''Order ID'', JStr ''A1''), (''Item'', JStr ''Widget'')]] @
         [(''Order ID'', JStr ''a1''), (''Item'', JStr ''Gadget'')] #
         [[(''Order ID'', JStr ''B2''), (''Item'', JStr ''Bolt'')]])) = 1 \<and>
   rowKey exampleHost
     (mappedRow exampleHost [(''orderId'', ''Order ID''), (''productName'', ''Item'')] Sales
        [(''Order ID'', JStr ''a1''), (''Item'', JStr ''Gadget'')]) = ''a1_a1''"
proof -
  let ?h = "[(''orderId'', ''Order ID''), (''productName'', ''Item'')]"
  let ?r1 = "[(''Order ID'', JStr ''A1''), (''Item'', JStr ''Widget'')]"
  let ?r2 = "[(''Order ID'', JStr ''a1''), (''Item'', JStr ''Gadget'')]"
  let ?r3 = "[(''Order ID'', JStr ''B2''), (''Item'', JStr ''Bolt'')]"
  have 1: "?r1 \<in> set [?r1]" by simp
  have 2: "trim (fileOrderId exampleHost ?h ?r1) \<noteq> []" by code_simp
  have 3: "trim (fileOrderId exampleHost ?h ?r2) \<noteq> []" by code_simp
  have 4: "fileRowKey exampleHost ?h ?r2 = fileRowKey exampleHost ?h ?r1" by code_simp
  have 5: "\<not> hasProp ?r2 ''orderId'' \<and> \<not> hasProp ?r2 ''subOrderId''"
    by (simp add: hasProp_def)
  have 6: "map (\<lambda>r. getProp r ''productName'') (ingest exampleHost ?h Sales [] ([?r1] @ [?r3])) =
     [JStr ''Widget'', JStr ''Bolt'']" by code_simp
  have 7: "duplicateCount (processRows exampleHost ?h Sales ([?r1] @ [?r3])) = 0" by code_simp
  have 8: "fileRowKey exampleHost ?h ?r2 = ''a1_a1''" by code_simp
  note d = duplicate_in_file_discarded [OF 1 2 3 4, where ut = Sales and after = "[?r3]"
      and existingRows = "[]"]
  from d 6 have a: "map (\<lambda>r. getProp r ''productName'')
      (ingest exampleHost ?h Sales [] ([?r1] @ ?r2 # [?r3])) = [JStr ''Widget'', JStr ''Bolt'']"
    by simp
  from d 7 have b: "duplicateCount (processRows exampleHost ?h Sales ([?r1] @ ?r2 # [?r3])) = 1"
    by simp
  from d 5 8 have c: "rowKey exampleHost (mappedRow exampleHost ?h Sales ?r2) = ''a1_a1''"
    by simp
  from a b c show ?thesis by blast
qed

text \<open>
  Claim C3 as stated fails: of two rows of one file with the same key and different
  product names, the record keeps the name of the first row; the second row is counted
  as a duplicate.
\<close>

theorem duplicate_in_file_first_row_wins:
  "map (\<lambda>r. getProp r ''productName'')
     (ingest exampleHost [(''orderId'', ''Order ID''), (''productName'', ''Item'')] Sales []
        [[(''Order ID'', JStr ''A1''), (''Item'', JStr ''Widget'')],
         [(''Order ID'', JStr ''A1''), (''Item'', JStr ''Gadget'')]]) = [JStr ''Widget''] \<and>
   duplicateCount
     (processRows exampleHost [(''orderId'', ''Order ID''), (''productName'', ''Item'')] Sales
        [[(''Order ID'', JStr ''A1''), (''Item'', JStr ''Widget'')],
         [(''Order ID'', JStr ''A1''), (''Item'', JStr ''Gadget'')]]) = 1"
  by code_simp

text \<open>
  \<^verbatim>\<open>mergeIntoMasterFile\<close> itself, given two rows with one key that the master file does
  not have, merges the second into the first.
\<close>

lemma in_batch_duplicates_folded:
  assumes "truthy (getProp r1 ''orderId'')" "truthy (getProp r2 ''orderId'')" "rowKey H r2 = rowKey H r1"
  shows "mergedRows H [] [r1, r2] ft = [mergeRowData r1 r2 ft]"
  using assms
  by (simp add: mergedRows_def indexExisting_def processNewRow_def Let_def addNewRows_def sortBy_def)

text \<open>
  Two rows of a file reach that branch only when columns of the file named \<^verbatim>\<open>orderId\<close>
  and \<^verbatim>\<open>subOrderId\<close> replace the identifiers that \<^verbatim>\<open>processFile\<close> has extracted: the keys
  that \<^verbatim>\<open>processFile\<close> compares differ, the stored keys are equal, no duplicate is
  counted and the second row is merged into the first.
\<close>

lemma rows_with_identity_columns_folded:
  "processedKeys
     (processRows exampleHost [(''orderId'', ''Order ID''), (''productName'', ''Item'')] Sales
        [[(''Order ID'', JStr ''A1''), (''orderId'', JStr ''X''), (''subOrderId'', JStr ''Y''),
          (''Item'', JStr ''Widget'')],
         [(''Order ID'', JStr ''A2''), (''orderId'', JStr ''X''), (''subOrderId'', JStr ''Y''),
          (''Item'', JStr ''Gadget'')]]) = [''a1_a1'', ''a2_a2''] \<and>
   duplicateCount
     (processRows exampleHost [(''orderId'', ''Order ID''), (''productName'', ''Item'')] Sales
        [[(''Order ID'', JStr ''A1''), (''orderId'', JStr ''X''), (''subOrderId'', JStr ''Y''),
          (''Item'', JStr ''Widget'')],
         [(''Order ID'', JStr ''A2''), (''orderId'', JStr ''X''), (''subOrderId'', JStr ''Y''),
          (''Item'', JStr ''Gadget'')]]) = 0 \<and>
   map (\<lambda>r. (getProp r ''orderId'', getProp r ''subOrderId'', getProp r ''Order ID'',
              getProp r ''productName''))
     (ingest exampleHost [(''orderId'', ''Order ID''), (''productName'', ''Item'')] Sales []
        [[(''Order ID'', JStr ''A1''), (''orderId'', JStr ''X''), (''subOrderId'', JStr ''Y''),
          (''Item'', JStr ''Widget'')],
         [(''Order ID'', JStr ''A2''), (''orderId'', JStr ''X''), (''subOrderId'', JStr ''Y''),
          (''Item'', JStr ''Gadget'')]]) =
     [(JStr ''X'', JStr ''Y'', JStr ''A1'', JStr ''Gadget'')]"
  by code_simp

section \<open>Merges of two kinds in either order\<close>

lemma passes_defined: "passes g v \<Longrightarrow> v \<noteq> JUndefined"
  by (cases g) auto

lemma assigns_hasProp: "assigns n as f \<Longrightarrow> hasProp n f"
  by (auto simp: assigns_def list_ex_iff hasProp_def getProp_def dest!: passes_defined
      split: option.splits)

lemma writes_hasProp: "writes ft n f \<Longrightarrow> hasProp n f"
  by (simp add: writes_def assigns_hasProp)

lemma writes_value: "writes ft n f \<Longrightarrow> map_of n f = Some (getProp n f)"
  by (drule writes_hasProp) (auto simp: hasProp_def getProp_def)

text \<open>
  Claim C9, as the code has it. For a sales row \<open>s\<close> and a payment row \<open>p\<close>, the two
  orders of merging agree on a field that only the sales branch assigns, provided \<open>p\<close>
  does not carry it or \<open>s\<close> has a value that passes its guard, and on a field that only
  the payment branch assigns under the mirrored condition. Fields that both branches
  assign (\<^verbatim>\<open>productName\<close>, \<^verbatim>\<open>customerState\<close>, \<^verbatim>\<open>customerCity\<close>, \<^verbatim>\<open>customerPincode\<close>,
  \<^verbatim>\<open>wholesalePrice\<close>, \<^verbatim>\<open>shippingCharge\<close>) are not covered: there the later merge wins.
\<close>

theorem cross_kind_exclusive_fields:
  "(f \<in> snd ` set salesAssignments \<and> f \<notin> snd ` set paymentAssignments \<and>
      (\<not> hasProp p f \<or> writes Sales s f) \<longrightarrow>
      getProp (mergeRowData s p Payment) f = getProp s f \<and>
      getProp (mergeRowData p s Sales) f = getProp s f) \<and>
   (f \<in> snd ` set paymentAssignments \<and> f \<notin> snd ` set salesAssignments \<and>
      (\<not> hasProp s f \<or> writes Payment p f) \<longrightarrow>
      getProp (mergeRowData s p Payment) f = getProp p f \<and>
      getProp (mergeRowData p s Sales) f = getProp p f)"
proof (intro conjI impI)
  have undef: "\<And>r. \<not> hasProp r f \<Longrightarrow> getProp r f = JUndefined"
    by (simp add: hasProp_def getProp_def)
  have ids: "f \<in> snd ` set salesAssignments \<or> f \<in> snd ` set paymentAssignments \<Longrightarrow>
             f \<noteq> ''orderId'' \<and> f \<noteq> ''subOrderId''"
    by (auto simp: salesAssignments_def paymentAssignments_def)
  have always: "f \<in> snd ` set alwaysAssignments \<Longrightarrow>
             (f \<in> snd ` set salesAssignments \<longleftrightarrow> f \<in> snd ` set paymentAssignments)"
    by (auto simp: salesAssignments_def paymentAssignments_def alwaysAssignments_def)
  have wdef: "\<And>ft r. writes ft r f \<Longrightarrow> hasProp r f"
    by (rule writes_hasProp)
  {
    assume a: "f \<in> snd ` set salesAssignments \<and> f \<notin> snd ` set paymentAssignments \<and>
      (\<not> hasProp p f \<or> writes Sales s f)"
    with always have "f \<notin> snd ` set alwaysAssignments" by blast
    with a have nw: "\<not> writes Payment p f"
      by (simp add: writes_def assigns_append assigns_notin)
    show "getProp (mergeRowData s p Payment) f = getProp s f"
      using a nw ids undef wdef by (auto simp: getProp_mergeRowData)
    show "getProp (mergeRowData p s Sales) f = getProp s f"
      using a ids undef wdef by (auto simp: getProp_mergeRowData)
  }
  {
    assume a: "f \<in> snd ` set paymentAssignments \<and> f \<notin> snd ` set salesAssignments \<and>
      (\<not> hasProp s f \<or> writes Payment p f)"
    with always have "f \<notin> snd ` set alwaysAssignments" by blast
    with a have nw: "\<not> writes Sales s f"
      by (simp add: writes_def assigns_append assigns_notin)
    show "getProp (mergeRowData s p Payment) f = getProp p f"
      using a ids undef wdef by (auto simp: getProp_mergeRowData)
    show "getProp (mergeRowData p s Sales) f = getProp p f"
      using a nw ids undef wdef by (auto simp: getProp_mergeRowData)
  }
qed

text \<open>An instance with \<^verbatim>\<open>sku\<close>, a sales field, and \<^verbatim>\<open>netAmount\<close>, a payment field.\<close>

theorem cross_kind_exclusive_fields_witness:
  "getProp (mergeRowData
      [(''orderId'', JStr ''A1''), (''subOrderId'', JStr ''A1''), (''sku'', JStr ''SKU001''),
       (''wholesalePrice'', JNum 1000)]
      [(''orderId'', JStr ''A1''), (''subOrderId'', JStr ''A1''), (''wholesalePrice'', JNum 0),
       (''netAmount'', JNum 950)] Payment) ''sku'' = JStr ''SKU001'' \<and>
   getProp (mergeRowData
      [(''orderId'', JStr ''A1''), (''subOrderId'', JStr ''A1''), (''wholesalePrice'', JNum 0),
       (''netAmount'', JNum 950)]
      [(''orderId'', JStr ''A1''), (''subOrderId'', JStr ''A1''), (''sku'', JStr ''SKU001''),
       (''wholesalePrice'', JNum 1000)] Sales) ''sku'' = JStr ''SKU001'' \<and>
   getProp (mergeRowData
      [(''orderId'', JStr ''A1''), (''subOrderId'', JStr ''A1''), (''sku'', JStr ''SKU001''),
       (''wholesalePrice'', JNum 1000)]
      [(''orderId'', JStr ''A1''), (''subOrderId'', JStr ''A1''), (''wholesalePrice'', JNum 0),
       (''netAmount'', JNum 950)] Payment) ''netAmount'' = JNum 950 \<and>
   getProp (mergeRowData
      [(''orderId'', JStr ''A1''), (''subOrderId'', JStr ''A1''), (''wholesalePrice'', JNum 0),
       (''netAmount'', JNum 950)]
      [(''orderId'', JStr ''A1''), (''subOrderId'', JStr ''A1''), (''sku'', JStr ''SKU001''),
       (''wholesalePrice'', JNum 1000)] Sales) ''netAmount'' = JNum 950"
proof -
  let ?s = "[(''orderId'', JStr ''A1''), (''subOrderId'', JStr ''A1''), (''sku'', JStr ''SKU001''),
       (''wholesalePrice'', JNum 1000)]"
  let ?p = "[(''orderId'', JStr ''A1''), (''subOrderId'', JStr ''A1''), (''wholesalePrice'', JNum 0),
       (''netAmount'', JNum 950)]"
  have 1: "''sku'' \<in> snd ` set salesAssignments \<and> ''sku'' \<notin> snd ` set paymentAssignments \<and>
      (\<not> hasProp ?p ''sku'' \<or> writes Sales ?s ''sku'')"
    by (simp add: salesAssignments_def paymentAssignments_def hasProp_def)
  have 2: "''netAmount'' \<in> snd ` set paymentAssignments \<and> ''netAmount'' \<notin> snd ` set salesAssignments \<and>
      (\<not> hasProp ?s ''netAmount'' \<or> writes Payment ?p ''netAmount'')"
    by (simp add: salesAssignments_def paymentAssignments_def hasProp_def)
  have 3: "getProp ?s ''sku'' = JStr ''SKU001''" "getProp ?p ''netAmount'' = JNum 950"
    by (simp_all add: getProp_def)
  from 1 cross_kind_exclusive_fields [where f = "''sku''" and s = ?s and p = ?p]
  have a: "getProp (mergeRowData ?s ?p Payment) ''sku'' = getProp ?s ''sku'' \<and>
      getProp (mergeRowData ?p ?s Sales) ''sku'' = getProp ?s ''sku''" by blast
  from 2 cross_kind_exclusive_fields [where f = "''netAmount''" and s = ?s and p = ?p]
  have b: "getProp (mergeRowData ?s ?p Payment) ''netAmount'' = getProp ?p ''netAmount'' \<and>
      getProp (mergeRowData ?p ?s Sales) ''netAmount'' = getProp ?p ''netAmount''" by blast
  from a b 3 show ?thesis by simp
qed

text \<open>
  Claim C9 as stated fails: a sales row with wholesale price 1000 and a payment row of
  the same order, whose wholesale price was parsed to 0, leave 0 when the payment file
  comes last and 1000 when the sales file comes last.
\<close>

theorem cross_kind_order_matters:
  "map (\<lambda>r. getProp r ''wholesalePrice'')
     (mergedRows exampleHost
        (mergedRows exampleHost []
           [[(''orderId'', JStr ''A1''), (''subOrderId'', JStr ''A1''),
             (''productName'', JStr ''Widget''), (''wholesalePrice'', JNum 1000)]] Sales)
        [[(''orderId'', JStr ''A1''), (''subOrderId'', JStr ''A1''),
          (''wholesalePrice'', JNum 0), (''netAmount'', JNum 950)]] Payment) = [JNum 0] \<and>
   map (\<lambda>r. getProp r ''wholesalePrice'')
     (mergedRows exampleHost
        (mergedRows exampleHost []
           [[(''orderId'', JStr ''A1''), (''subOrderId'', JStr ''A1''),
             (''wholesalePrice'', JNum 0), (''netAmount'', JNum 950)]] Payment)
        [[(''orderId'', JStr ''A1''), (''subOrderId'', JStr ''A1''),
          (''productName'', JStr ''Widget''), (''wholesalePrice'', JNum 1000)]] Sales) = [JNum 1000]"
  by code_simp

section \<open>Properties of the sort\<close>

lemma set_insertBy: "set (insertBy cmp x ys) = insert x (set ys)"
  by (induction ys) auto

lemma sortBy_Nil: "sortBy cmp [] = []"
  by (simp add: sortBy_def)

lemma sortBy_Cons: "sortBy cmp (x # xs) = insertBy cmp x (sortBy cmp xs)"
  by (simp add: sortBy_def)

lemma set_sortBy: "set (sortBy cmp xs) = set xs"
  by (induction xs) (auto simp: sortBy_Nil sortBy_Cons set_insertBy)

lemma distinct_map_insertBy:
  "distinct (map f (insertBy cmp x ys)) \<longleftrightarrow> f x \<notin> f ` set ys \<and> distinct (map f ys)"
  by (induction ys) (auto simp: set_insertBy)

lemma distinct_map_sortBy: "distinct (map f (sortBy cmp xs)) = distinct (map f xs)"
  by (induction xs) (auto simp: sortBy_Nil sortBy_Cons distinct_map_insertBy set_sortBy)

lemma sorted_wrt_insertBy:
  assumes total: "\<And>a b. cmp a b \<le> 0 \<or> cmp b a \<le> 0"
    and trans: "\<And>a b c. cmp a b \<le> 0 \<Longrightarrow> cmp b c \<le> 0 \<Longrightarrow> cmp a c \<le> 0"
  shows "sorted_wrt (\<lambda>a b. cmp a b \<le> 0) ys \<Longrightarrow> sorted_wrt (\<lambda>a b. cmp a b \<le> 0) (insertBy cmp x ys)"
proof (induction ys)
  case Nil
  then show ?case by simp
next
  case (Cons y ys)
  show ?case
  proof (cases "cmp x y \<le> 0")
    case True
    with Cons.prems trans show ?thesis by auto
  next
    case False
    with total have "cmp y x \<le> 0" by blast
    with False Cons show ?thesis by (auto simp: set_insertBy)
  qed
qed

lemma sorted_wrt_sortBy:
  assumes total: "\<And>a b. cmp a b \<le> 0 \<or> cmp b a \<le> 0"
    and trans: "\<And>a b c. cmp a b \<le> 0 \<Longrightarrow> cmp b c \<le> 0 \<Longrightarrow> cmp a c \<le> 0"
  shows "sorted_wrt (\<lambda>a b. cmp a b \<le> 0) (sortBy cmp xs)"
proof (induction xs)
  case Nil
  then show ?case by (simp add: sortBy_Nil)
next
  case (Cons x xs)
  then show ?case
    using sorted_wrt_insertBy [of cmp, OF total trans] by (simp add: sortBy_Cons)
qed

lemma sortBy_sorted:
  "sorted_wrt (\<lambda>a b. cmp a b \<le> 0) xs \<Longrightarrow> sortBy cmp xs = xs"
proof (induction xs)
  case Nil
  then show ?case by (simp add: sortBy_def)
next
  case (Cons x xs)
  then show ?case by (cases xs) (auto simp: sortBy_Nil sortBy_Cons)
qed

lemma compareCodes_total: "compareCodes a b \<le> 0 \<or> compareCodes b a \<le> 0"
  by (induction a b rule: compareCodes.induct) auto

lemma compareCodes_trans:
  "compareCodes a b \<le> 0 \<Longrightarrow> compareCodes b c \<le> 0 \<Longrightarrow> compareCodes a c \<le> 0"
proof (induction a b arbitrary: c rule: compareCodes.induct)
  case 1
  then show ?case by simp
next
  case (2 y ys)
  then show ?case by (cases c) auto
next
  case (3 x xs)
  then show ?case by simp
next
  case (4 x xs y ys)
  show ?case
  proof (cases c)
    case Nil
    with 4 show ?thesis by simp
  next
    case (Cons z zs)
    from "4.prems" have xy: "(of_char x :: nat) \<le> of_char y"
      by (simp split: if_splits)
    from "4.prems" Cons have yz: "(of_char y :: nat) \<le> of_char z"
      by (simp split: if_splits)
    show ?thesis
    proof (cases "(of_char x :: nat) < of_char z")
      case True
      with Cons show ?thesis by simp
    next
      case False
      with xy yz have "(of_char x :: nat) = of_char y \<and> (of_char y :: nat) = of_char z"
        by linarith
      then have e: "x = y" "y = z"
        by simp_all
      with "4.prems" Cons have "compareCodes xs ys \<le> 0" "compareCodes ys zs \<le> 0"
        by simp_all
      with e "4.IH" have "compareCodes xs zs \<le> 0" by simp
      with e Cons show ?thesis by simp
    qed
  qed
qed

lemma consistent_compareCodes: "consistentComparator compareCodes"
  unfolding consistentComparator_def
  using compareCodes_total compareCodes_trans by blast

section \<open>Properties of \<^verbatim>\<open>mergeIntoMasterFile\<close>\<close>

subsection \<open>Every row is stored under its own key\<close>

lemma set_update_subset: "set (AList.update k v al) \<subseteq> insert (k, v) (set al)"
  by (induction al) auto

lemma keyed_Nil: "keyed H []"
  by (simp add: keyed_def)

lemma keyed_update: "keyed H m \<Longrightarrow> rowKey H r = k \<Longrightarrow> keyed H (AList.update k r m)"
  using set_update_subset [of k r m]
  by (auto simp: keyed_def list_all_iff distinct_update)

lemma keyed_lookup: "keyed H m \<Longrightarrow> map_of m k = Some e \<Longrightarrow> rowKey H e = k"
  by (auto simp: keyed_def list_all_iff dest!: map_of_SomeD)

lemma keyed_fold_index:
  "keyed H m \<Longrightarrow> keyed H (fold (\<lambda>row existingMap. AList.update (rowKey H row) row existingMap) rows m)"
  by (induction rows arbitrary: m) (simp_all add: keyed_update)

lemma keyed_indexExisting: "keyed H (indexExisting H rows)"
  by (simp add: indexExisting_def keyed_fold_index keyed_Nil)

lemma not_writes_ids: "\<not> writes ft n ''orderId''" "\<not> writes ft n ''subOrderId''"
  by (cases ft; simp add: writes_def assigns_def salesAssignments_def paymentAssignments_def
        gstAssignments_def refundAssignments_def alwaysAssignments_def)+

lemma jsOr_absorb: "jsOr (jsOr a b) b = jsOr a b"
  by (simp add: jsOr_def)

lemma compositeKey_mergeRowData: "compositeKey H (mergeRowData e n ft) = compositeKey H e"
  by (simp add: compositeKey_def getProp_mergeRowData not_writes_ids jsOr_absorb)

lemma rowKey_mergeRowData: "rowKey H (mergeRowData e n ft) = rowKey H e"
  by (simp add: rowKey_def compositeKey_mergeRowData)

lemma keyed_processNewRow:
  assumes "keyed H (fst maps)" "keyed H (snd maps)"
  shows "keyed H (fst (processNewRow H ft newRow maps)) \<and> keyed H (snd (processNewRow H ft newRow maps))"
  using assms
  by (auto simp: processNewRow_def Let_def keyed_update rowKey_mergeRowData keyed_lookup
      split: option.splits)

lemma keyed_fold_processNewRow:
  "keyed H (fst maps) \<Longrightarrow> keyed H (snd maps) \<Longrightarrow>
   keyed H (fst (fold (processNewRow H ft) newRows maps)) \<and>
   keyed H (snd (fold (processNewRow H ft) newRows maps))"
proof (induction newRows arbitrary: maps)
  case Nil
  then show ?case by simp
next
  case (Cons r rs)
  from keyed_processNewRow [OF Cons.prems]
  show ?case by (simp add: Cons.IH)
qed

lemma keyed_fold_add:
  "keyed H m \<Longrightarrow> list_all (\<lambda>kr. rowKey H (snd kr) = fst kr) nm \<Longrightarrow>
   keyed H (fold (\<lambda>kr m. if map_of m (fst kr) \<noteq> None then m else AList.update (fst kr) (snd kr) m) nm m)"
proof (induction nm arbitrary: m)
  case Nil
  then show ?case by simp
next
  case (Cons kr nm)
  then show ?case by (auto simp: keyed_update)
qed

lemma keyed_addNewRows:
  assumes "keyed H em" "keyed H nm"
  shows "keyed H (addNewRows nm em)"
proof -
  from assms(2) have "list_all (\<lambda>kr. rowKey H (snd kr) = fst kr) nm"
    by (simp add: keyed_def)
  with assms(1) show ?thesis
    unfolding addNewRows_def by (rule keyed_fold_add)
qed

lemma keyed_rowKeys: "keyed H m \<Longrightarrow> distinct (map (rowKey H) (map snd m))"
proof -
  assume k: "keyed H m"
  then have d: "distinct (map fst m)"
    by (simp add: keyed_def)
  from k have "map (rowKey H) (map snd m) = map fst m"
    by (auto simp: keyed_def list_all_iff)
  with d show ?thesis by (simp only:)
qed

lemma keyed_final:
  "keyed H (addNewRows (snd (fold (processNewRow H ft) newRows (indexExisting H existingRows, [])))
              (fst (fold (processNewRow H ft) newRows (indexExisting H existingRows, []))))"
  using keyed_fold_processNewRow [of H "(indexExisting H existingRows, [])" ft newRows]
  by (simp add: keyed_addNewRows keyed_indexExisting keyed_Nil)

subsection \<open>The rows that are written\<close>

text \<open>
  Claim C7, as the code has it. No two rows that \<^verbatim>\<open>mergeIntoMasterFile\<close> writes have the
  same identity key. The rows are sorted, under \<^verbatim>\<open>localeCompare\<close>, by the key
  \<^verbatim>\<open>`${orderId}_${subOrderId || orderId}`\<close> as it is stored, in its original letter case
  and with its white space, and not by the identity key.
\<close>

theorem persisted_rows_unique_and_sorted:
  "distinct (map (rowKey H) (mergedRows H existingRows newRows ft)) \<and>
   (consistentComparator (localeCompare H) \<longrightarrow>
      sorted_wrt (\<lambda>a b. localeCompare H (compositeKey H a) (compositeKey H b) \<le> 0)
        (mergedRows H existingRows newRows ft))"
proof (intro conjI impI)
  show "distinct (map (rowKey H) (mergedRows H existingRows newRows ft))"
    using keyed_rowKeys [OF keyed_final, of H ft newRows existingRows]
    by (simp add: mergedRows_def Let_def distinct_map_sortBy)
  assume c: "consistentComparator (localeCompare H)"
  have total: "\<And>a b. compareRows H a b \<le> 0 \<or> compareRows H b a \<le> 0"
    using c by (auto simp: consistentComparator_def compareRows_def)
  have trans: "\<And>a b c. compareRows H a b \<le> 0 \<Longrightarrow> compareRows H b c \<le> 0 \<Longrightarrow> compareRows H a c \<le> 0"
    using c unfolding consistentComparator_def compareRows_def by blast
  have "sorted_wrt (\<lambda>a b. compareRows H a b \<le> 0) (mergedRows H existingRows newRows ft)"
    unfolding mergedRows_def Let_def
    by (rule sorted_wrt_sortBy [of "compareRows H", OF total trans])
  then show "sorted_wrt (\<lambda>a b. localeCompare H (compositeKey H a) (compositeKey H b) \<le> 0)
        (mergedRows H existingRows newRows ft)"
    by (simp add: compareRows_def)
qed

text \<open>An instance: one row in the master file, two rows in the upload.\<close>

theorem persisted_rows_unique_and_sorted_witness:
  "consistentComparator (localeCompare exampleHost) \<and>
   mergedRows exampleHost
      [[(''orderId'', JStr ''B2''), (''subOrderId'', JStr ''B2'')]]
      [[(''orderId'', JStr ''B1''), (''subOrderId'', JStr ''B1'')],
       [(''orderId'', JStr ''A7''), (''subOrderId'', JStr ''A7'')]] Sales =
     [[(''orderId'', JStr ''A7''), (''subOrderId'', JStr ''A7'')],
      [(''orderId'', JStr ''B1''), (''subOrderId'', JStr ''B1'')],
      [(''orderId'', JStr ''B2''), (''subOrderId'', JStr ''B2'')]] \<and>
   sorted_wrt
     (\<lambda>a b. localeCompare exampleHost (compositeKey exampleHost a) (compositeKey exampleHost b)
        \<le> 0)
     [[(''orderId'', JStr ''A7''), (''subOrderId'', JStr ''A7'')],
      [(''orderId'', JStr ''B1''), (''subOrderId'', JStr ''B1'')],
      [(''orderId'', JStr ''B2''), (''subOrderId'', JStr ''B2'')]]"
proof -
  have c: "consistentComparator (localeCompare exampleHost)"
    by (simp add: exampleHost_def consistent_compareCodes)
  have e: "mergedRows exampleHost
      [[(''orderId'', JStr ''B2''), (''subOrderId'', JStr ''B2'')]]
      [[(''orderId'', JStr ''B1''), (''subOrderId'', JStr ''B1'')],
       [(''orderId'', JStr ''A7''), (''subOrderId'', JStr ''A7'')]] Sales =
     [[(''orderId'', JStr ''A7''), (''subOrderId'', JStr ''A7'')],
      [(''orderId'', JStr ''B1''), (''subOrderId'', JStr ''B1'')],
      [(''orderId'', JStr ''B2''), (''subOrderId'', JStr ''B2'')]]"
    by code_simp
  from c persisted_rows_unique_and_sorted [of exampleHost
      "[[(''orderId'', JStr ''B2''), (''subOrderId'', JStr ''B2'')]]"
      "[[(''orderId'', JStr ''B1''), (''subOrderId'', JStr ''B1'')],
       [(''orderId'', JStr ''A7''), (''subOrderId'', JStr ''A7'')]]" Sales]
  show ?thesis unfolding e using e by blast
qed

text \<open>
  Claim C7 as stated fails: an \<^verbatim>\<open>orderId\<close> that starts with a blank is sorted by the
  key with the blank, which comes before the letters, while its identity key has lost
  the blank; the identity keys of the written rows are then in descending order.
\<close>

theorem persisted_rows_not_sorted_by_identity_key:
  "map (rowKey exampleHost)
     (mergedRows exampleHost []
        [[(''orderId'', JStr ''a''), (''subOrderId'', JStr ''a'')],
         [(''orderId'', JStr '' b''), (''subOrderId'', JStr '' b'')]] Sales) = [''b_ b'', ''a_a''] \<and>
   localeCompare exampleHost ''b_ b'' ''a_a'' = 1"
  by code_simp

subsection \<open>Merging a batch twice\<close>

lemma hasProp_keys: "hasProp m k \<longleftrightarrow> k \<in> set (objectKeys m)"
  by (simp add: hasProp_def objectKeys_def map_of_eq_None_iff)

lemma objectKeys_setProp:
  "objectKeys (setProp m k v) = (if k \<in> set (objectKeys m) then objectKeys m else objectKeys m @ [k])"
  by (simp add: objectKeys_def setProp_def update_keys)

lemma distinct_setProp: "distinct (objectKeys m) \<Longrightarrow> distinct (objectKeys (setProp m k v))"
  by (simp add: objectKeys_def setProp_def distinct_update)

lemma distinct_assignIf: "distinct (objectKeys m) \<Longrightarrow> distinct (objectKeys (assignIf n gf m))"
  by (simp add: assignIf_def distinct_setProp)

lemma distinct_addMissing: "distinct (objectKeys m) \<Longrightarrow> distinct (objectKeys (addMissing n k m))"
  by (simp add: addMissing_def distinct_setProp)

lemma distinct_fold_assignIf:
  "distinct (objectKeys m) \<Longrightarrow> distinct (objectKeys (fold (assignIf n) as m))"
  by (induction as arbitrary: m) (simp_all add: distinct_assignIf)

lemma distinct_fold_addMissing:
  "distinct (objectKeys m) \<Longrightarrow> distinct (objectKeys (fold (addMissing n) ks m))"
  by (induction ks arbitrary: m) (simp_all add: distinct_addMissing)

lemma distinct_mergeRowData:
  "distinct (objectKeys e) \<Longrightarrow> distinct (objectKeys (mergeRowData e n ft))"
  by (simp add: mergeRowData_def Let_def distinct_fold_addMissing distinct_fold_assignIf
      distinct_setProp)

lemma keys_mergeRowData:
  "set (objectKeys (mergeRowData e n ft)) =
     set (objectKeys e) \<union> set (objectKeys n) \<union> {''orderId'', ''subOrderId''}"
proof (rule set_eqI)
  fix k
  have "k \<in> set (objectKeys (mergeRowData e n ft)) \<longleftrightarrow> map_of (mergeRowData e n ft) k \<noteq> None"
    by (simp add: objectKeys_def map_of_eq_None_iff)
  also have "\<dots> \<longleftrightarrow> writes ft n k \<or> k = ''orderId'' \<or> k = ''subOrderId'' \<or>
      map_of e k \<noteq> None \<or> map_of n k \<noteq> None"
    by (auto simp: map_of_mergeRowData split: option.splits)
  also have "\<dots> \<longleftrightarrow> k = ''orderId'' \<or> k = ''subOrderId'' \<or> hasProp e k \<or> hasProp n k"
    using writes_hasProp [of ft n k] by (auto simp: hasProp_def)
  finally show "k \<in> set (objectKeys (mergeRowData e n ft)) \<longleftrightarrow>
     k \<in> set (objectKeys e) \<union> set (objectKeys n) \<union> {''orderId'', ''subOrderId''}"
    by (auto simp: hasProp_keys)
qed

lemma objectKeys_assignIf_same:
  "set (objectKeys n) \<subseteq> set (objectKeys m) \<Longrightarrow> objectKeys (assignIf n gf m) = objectKeys m"
proof -
  assume s: "set (objectKeys n) \<subseteq> set (objectKeys m)"
  have "passes (fst gf) (getProp n (snd gf)) \<Longrightarrow> hasProp n (snd gf)"
    by (auto dest!: passes_defined simp: getProp_def hasProp_def split: option.splits)
  then have "passes (fst gf) (getProp n (snd gf)) \<Longrightarrow> snd gf \<in> set (objectKeys n)"
    by (simp add: hasProp_keys)
  with s show ?thesis
    by (auto simp: assignIf_def objectKeys_setProp)
qed

lemma objectKeys_fold_assignIf_same:
  "set (objectKeys n) \<subseteq> set (objectKeys m) \<Longrightarrow>
   objectKeys (fold (assignIf n) as m) = objectKeys m"
  by (induction as arbitrary: m) (simp_all add: objectKeys_assignIf_same)

lemma objectKeys_fold_addMissing_same:
  "set ks \<subseteq> set (objectKeys m) \<Longrightarrow> fold (addMissing n) ks m = m"
  by (induction ks arbitrary: m) (simp_all add: addMissing_def hasProp_keys)

lemma objectKeys_mergeRowData_same:
  assumes "set (objectKeys n) \<subseteq> set (objectKeys e)"
    and "''orderId'' \<in> set (objectKeys e)" and "''subOrderId'' \<in> set (objectKeys e)"
  shows "objectKeys (mergeRowData e n ft) = objectKeys e"
proof -
  let ?m = "setProp (setProp e ''orderId'' (getProp e ''orderId'')) ''subOrderId''
              (jsOr (getProp e ''subOrderId'') (getProp e ''orderId''))"
  have 1: "objectKeys ?m = objectKeys e"
    using assms(2,3) by (simp add: objectKeys_setProp)
  have 2: "objectKeys (beforeOverflow e n ft) = objectKeys e"
    using assms(1) by (simp add: beforeOverflow_def objectKeys_fold_assignIf_same 1)
  show ?thesis
    using assms(1) by (simp add: mergeRowData_overflow objectKeys_fold_addMissing_same 2)
qed

lemma alist_eqI:
  "distinct (map fst xs) \<Longrightarrow> map fst xs = map fst ys \<Longrightarrow> map_of xs = map_of ys \<Longrightarrow> xs = ys"
proof (induction xs arbitrary: ys)
  case Nil
  then show ?case by simp
next
  case (Cons x xs)
  then obtain y ys' where ys: "ys = y # ys'" by (cases ys) auto
  with Cons.prems have k: "fst x = fst y" and ks: "map fst xs = map fst ys'" by simp_all
  from Cons.prems(3) ys k have "snd x = snd y"
    by (metis fun_upd_same map_of.simps(2) option.inject)
  with k have xy: "x = y" by (simp add: prod_eq_iff)
  from Cons.prems(1) have nx: "fst x \<notin> fst ` set xs" by simp
  with ks have ny: "fst x \<notin> fst ` set ys'" by (metis list.set_map)
  have "map_of xs = map_of ys'"
  proof
    fix k'
    show "map_of xs k' = map_of ys' k'"
    proof (cases "k' = fst x")
      case True
      from nx have "map_of xs (fst x) = None" by (simp add: map_of_eq_None_iff)
      moreover from ny have "map_of ys' (fst x) = None" by (simp add: map_of_eq_None_iff)
      ultimately show ?thesis using True by simp
    next
      case False
      with Cons.prems(3) ys xy show ?thesis
        by (metis fun_upd_other map_of.simps(2))
    qed
  qed
  with Cons.IH [of ys'] Cons.prems(1) ks have "xs = ys'" by simp
  with xy ys show ?case by simp
qed

lemma mergeAll_Nil: "mergeAll ft [] e = e"
  by (simp add: mergeAll_def)

lemma mergeAll_Cons: "mergeAll ft (r # rs) e = mergeAll ft rs (mergeRowData e r ft)"
  by (simp add: mergeAll_def)

lemma map_of_mergeRowData_step:
  "f \<noteq> ''subOrderId'' \<Longrightarrow>
   map_of (mergeRowData e n ft) f = fieldStep ft f n (map_of e f)"
  by (simp add: map_of_mergeRowData fieldStep_def getProp_def)

lemma map_of_mergeAll_step:
  "f \<noteq> ''subOrderId'' \<Longrightarrow>
   map_of (mergeAll ft rs e) f = fold (fieldStep ft f) rs (map_of e f)"
  by (induction rs arbitrary: e) (simp_all add: mergeAll_Nil mergeAll_Cons map_of_mergeRowData_step)

lemma setsOrFills_fieldStep: "setsOrFills (fieldStep ft f n)"
proof (cases "writes ft n f")
  case True
  then show ?thesis by (auto simp: setsOrFills_def fieldStep_def)
next
  case False
  show ?thesis
  proof (cases "f = ''orderId''")
    case True
    have "\<forall>x. fieldStep ft f n x = (case x of Some y \<Rightarrow> Some y | None \<Rightarrow> Some JUndefined)"
      using False True by (auto simp: fieldStep_def split: option.splits)
    then show ?thesis unfolding setsOrFills_def by blast
  next
    case nf: False
    have "\<forall>x. fieldStep ft f n x = (case x of Some y \<Rightarrow> Some y | None \<Rightarrow> map_of n f)"
      using False nf by (auto simp: fieldStep_def split: option.splits)
    then show ?thesis unfolding setsOrFills_def by blast
  qed
qed

lemma setsOrFills_id: "setsOrFills (\<lambda>x. x)"
proof -
  have "\<forall>x::jsval option. x = (case x of Some y \<Rightarrow> Some y | None \<Rightarrow> None)"
    by (auto split: option.splits)
  then show ?thesis unfolding setsOrFills_def by blast
qed

lemma setsOrFills_comp:
  assumes "setsOrFills g" "setsOrFills h"
  shows "setsOrFills (\<lambda>x. h (g x))"
proof -
  from assms(1) consider (set) v where "\<forall>x. g x = Some v"
    | (fill) c where "\<forall>x. g x = (case x of Some y \<Rightarrow> Some y | None \<Rightarrow> c)"
    unfolding setsOrFills_def by blast
  then show ?thesis
  proof cases
    case set
    then have "\<forall>x. h (g x) = h (Some v)" by simp
    moreover from assms(2) obtain w where "h (Some v) = Some w"
      unfolding setsOrFills_def by (metis option.simps(5))
    ultimately show ?thesis unfolding setsOrFills_def by metis
  next
    case fill
    from assms(2) consider (hset) w where "\<forall>x. h x = Some w"
      | (hfill) d where "\<forall>x. h x = (case x of Some y \<Rightarrow> Some y | None \<Rightarrow> d)"
      unfolding setsOrFills_def by blast
    then show ?thesis
    proof cases
      case hset
      then show ?thesis unfolding setsOrFills_def by blast
    next
      case hfill
      have "\<forall>x. h (g x) = (case x of Some y \<Rightarrow> Some y | None \<Rightarrow> h c)"
        using fill hfill by (auto split: option.splits)
      then show ?thesis unfolding setsOrFills_def by blast
    qed
  qed
qed

lemma setsOrFills_idem: "setsOrFills g \<Longrightarrow> g (g x) = g x"
  unfolding setsOrFills_def
  by (cases x) (auto split: option.splits, (metis option.simps(4,5) option.exhaust)+)

lemma setsOrFills_fold: "setsOrFills (fold (fieldStep ft f) rs)"
proof (induction rs)
  case Nil
  then show ?case using setsOrFills_id by (simp add: id_def)
next
  case (Cons r rs)
  have "fold (fieldStep ft f) (r # rs) = (\<lambda>x. fold (fieldStep ft f) rs (fieldStep ft f r x))"
    by (simp add: fun_eq_iff)
  with setsOrFills_comp [OF setsOrFills_fieldStep Cons.IH, of ft f r]
  show ?case by simp
qed

lemma fieldStep_self:
  "f = ''orderId'' \<longrightarrow> hasProp r ''orderId'' \<Longrightarrow> fieldStep ft f r (map_of r f) = map_of r f"
  using writes_value [of ft r f]
  by (auto simp: fieldStep_def hasProp_def split: option.splits)

lemma truthy_hasProp: "truthy (getProp r k) \<Longrightarrow> map_of r k = Some (getProp r k)"
  by (auto simp: getProp_def split: option.splits)

lemma subOrderId_kept:
  "truthy (getProp e ''subOrderId'') \<Longrightarrow>
   map_of (mergeRowData e n ft) ''subOrderId'' = map_of e ''subOrderId''"
  by (simp add: map_of_mergeRowData not_writes_ids jsOr_def truthy_hasProp)

lemma subOrderId_kept_mergeAll:
  "truthy (getProp e ''subOrderId'') \<Longrightarrow>
   map_of (mergeAll ft rs e) ''subOrderId'' = map_of e ''subOrderId''"
proof (induction rs arbitrary: e)
  case Nil
  then show ?case by (simp add: mergeAll_Nil)
next
  case (Cons r rs)
  from Cons.prems have m: "map_of (mergeRowData e r ft) ''subOrderId'' = map_of e ''subOrderId''"
    by (rule subOrderId_kept)
  then have "getProp (mergeRowData e r ft) ''subOrderId'' = getProp e ''subOrderId''"
    by (simp add: getProp_def)
  with Cons.prems Cons.IH [of "mergeRowData e r ft"] m show ?case
    by (simp add: mergeAll_Cons)
qed

lemma keys_mergeAll:
  "set (objectKeys e) \<subseteq> set (objectKeys (mergeAll ft rs e)) \<and>
   (\<forall>r\<in>set rs. set (objectKeys r) \<subseteq> set (objectKeys (mergeAll ft rs e))) \<and>
   (rs \<noteq> [] \<longrightarrow> {''orderId'', ''subOrderId''} \<subseteq> set (objectKeys (mergeAll ft rs e)))"
proof (induction rs arbitrary: e)
  case Nil
  then show ?case by (simp add: mergeAll_Nil)
next
  case (Cons r rs)
  have k: "set (objectKeys (mergeRowData e r ft)) =
     set (objectKeys e) \<union> set (objectKeys r) \<union> {''orderId'', ''subOrderId''}"
    by (rule keys_mergeRowData)
  from Cons.IH [of "mergeRowData e r ft"] k show ?case
    by (auto simp: mergeAll_Cons)
qed

lemma distinct_mergeAll:
  "distinct (objectKeys e) \<Longrightarrow> distinct (objectKeys (mergeAll ft rs e))"
  by (induction rs arbitrary: e) (simp_all add: mergeAll_Nil mergeAll_Cons distinct_mergeRowData)

lemma objectKeys_mergeAll_same:
  assumes "\<forall>r\<in>set rs. set (objectKeys r) \<subseteq> set (objectKeys e)"
    and "''orderId'' \<in> set (objectKeys e)" and "''subOrderId'' \<in> set (objectKeys e)"
  shows "objectKeys (mergeAll ft rs e) = objectKeys e"
  using assms
proof (induction rs arbitrary: e)
  case Nil
  then show ?case by (simp add: mergeAll_Nil)
next
  case (Cons r rs)
  from Cons.prems have s: "objectKeys (mergeRowData e r ft) = objectKeys e"
    by (simp add: objectKeys_mergeRowData_same)
  with Cons.prems Cons.IH [of "mergeRowData e r ft"] show ?case
    by (simp add: mergeAll_Cons)
qed

lemma mergeAll_again:
  assumes "normalizedRow r"
  shows "mergeAll ft (r # rs) (mergeAll ft rs r) = mergeAll ft rs r"
proof -
  let ?M = "mergeAll ft rs r"
  let ?M' = "mergeAll ft (r # rs) ?M"
  from assms have d: "distinct (objectKeys r)" and o: "truthy (getProp r ''orderId'')"
    and s: "truthy (getProp r ''subOrderId'')"
    by (simp_all add: normalizedRow_def)
  from o have ho: "hasProp r ''orderId''" by (simp add: hasProp_def truthy_hasProp)
  from s have hs: "hasProp r ''subOrderId''" by (simp add: hasProp_def truthy_hasProp)
  have sup: "set (objectKeys r) \<subseteq> set (objectKeys ?M)"
    "\<forall>n\<in>set rs. set (objectKeys n) \<subseteq> set (objectKeys ?M)"
    using keys_mergeAll [of r ft rs] by blast+
  have ids: "''orderId'' \<in> set (objectKeys ?M)" "''subOrderId'' \<in> set (objectKeys ?M)"
    using sup(1) ho hs by (auto simp: hasProp_keys)
  have keys: "objectKeys ?M' = objectKeys ?M"
    using sup ids by (intro objectKeys_mergeAll_same) auto
  have dM: "distinct (objectKeys ?M')"
    using d by (simp add: distinct_mergeAll)
  have vals: "map_of ?M' = map_of ?M"
  proof
    fix f
    show "map_of ?M' f = map_of ?M f"
    proof (cases "f = ''subOrderId''")
      case True
      from s have 1: "map_of ?M ''subOrderId'' = map_of r ''subOrderId''"
        by (rule subOrderId_kept_mergeAll)
      then have "getProp ?M ''subOrderId'' = getProp r ''subOrderId''"
        by (simp add: getProp_def)
      with s have "truthy (getProp ?M ''subOrderId'')" by simp
      then have "map_of ?M' ''subOrderId'' = map_of ?M ''subOrderId''"
        by (rule subOrderId_kept_mergeAll)
      with True show ?thesis by simp
    next
      case False
      let ?F = "fold (fieldStep ft f) (r # rs)"
      have self: "fieldStep ft f r (map_of r f) = map_of r f"
        using ho by (intro fieldStep_self) simp
      have M: "map_of ?M f = ?F (map_of r f)"
        using False self by (simp add: map_of_mergeAll_step)
      have "map_of ?M' f = ?F (map_of ?M f)"
        using False by (rule map_of_mergeAll_step)
      also have "\<dots> = ?F (?F (map_of r f))" by (simp only: M)
      also have "\<dots> = ?F (map_of r f)"
        using setsOrFills_fold [of ft f "r # rs"] by (rule setsOrFills_idem)
      finally show ?thesis by (simp only: M)
    qed
  qed
  from dM keys vals show ?thesis
    by (intro alist_eqI) (simp_all add: objectKeys_def)
qed

lemma update_fresh: "k \<notin> fst ` set m \<Longrightarrow> AList.update k v m = m @ [(k, v)]"
  by (induction m) auto

lemma update_present:
  "distinct (map fst m) \<Longrightarrow> k \<in> fst ` set m \<Longrightarrow>
   AList.update k v m = map (\<lambda>kr. if fst kr = k then (k, v) else kr) m"
proof (induction m)
  case Nil
  then show ?case by simp
next
  case (Cons a m)
  show ?case
  proof (cases "fst a = k")
    case True
    with Cons.prems(1) have "k \<notin> fst ` set m" by auto
    then have "map (\<lambda>kr. if fst kr = k then (k, v) else kr) m = m"
      by (intro map_idI) auto
    with True show ?thesis by simp
  next
    case False
    with Cons show ?thesis by auto
  qed
qed

lemma rowsWithKey_Cons:
  "rowsWithKey H k (r # rs) =
     (if truthy (getProp r ''orderId'') \<and> rowKey H r = k then r # rowsWithKey H k rs
      else rowsWithKey H k rs)"
  by (simp add: rowsWithKey_def)

lemma rowsWithKey_Nil: "rowsWithKey H k [] = []"
  by (simp add: rowsWithKey_def)

text \<open>The first pass: the master file is empty.\<close>

lemma first_pass:
  "fst (fold (processNewRow H ft) batch ([], nm)) = [] \<and>
   (\<forall>k. map_of (snd (fold (processNewRow H ft) batch ([], nm))) k =
      (case map_of nm k of
         Some e \<Rightarrow> Some (mergeAll ft (rowsWithKey H k batch) e)
       | None \<Rightarrow> (case rowsWithKey H k batch of
                    [] \<Rightarrow> None
                  | r # rs \<Rightarrow> Some (mergeAll ft rs r))))"
proof (induction batch arbitrary: nm)
  case Nil
  then show ?case by (simp add: rowsWithKey_Nil mergeAll_Nil split: option.splits)
next
  case (Cons r batch)
  show ?case
  proof (cases "truthy (getProp r ''orderId'')")
    case False
    then have "processNewRow H ft r ([], nm) = ([], nm)"
      by (simp add: processNewRow_def)
    with Cons.IH [of nm] False show ?thesis
      by (auto simp: rowsWithKey_Cons split: option.splits list.splits)
  next
    case True
    show ?thesis
    proof (cases "map_of nm (rowKey H r)")
      case None
      with True have p: "processNewRow H ft r ([], nm) = ([], AList.update (rowKey H r) r nm)"
        by (simp add: processNewRow_def Let_def)
      from Cons.IH [of "AList.update (rowKey H r) r nm"] None True show ?thesis
        by (auto simp: p rowsWithKey_Cons update_conv' mergeAll_Cons split: option.splits)
    next
      case (Some e)
      with True have p: "processNewRow H ft r ([], nm) =
          ([], AList.update (rowKey H r) (mergeRowData e r ft) nm)"
        by (simp add: processNewRow_def Let_def)
      from Cons.IH [of "AList.update (rowKey H r) (mergeRowData e r ft) nm"] Some True
      show ?thesis
        by (auto simp: p rowsWithKey_Cons update_conv' mergeAll_Cons split: option.splits)
    qed
  qed
qed

lemma addNewRows_empty:
  "distinct (map fst nm) \<Longrightarrow> fst ` set nm \<inter> fst ` set m = {} \<Longrightarrow>
   fold (\<lambda>kr m. if map_of m (fst kr) \<noteq> None then m else AList.update (fst kr) (snd kr) m) nm m
     = m @ nm"
proof (induction nm arbitrary: m)
  case Nil
  then show ?case by simp
next
  case (Cons kr nm)
  from Cons.prems(2) have f: "fst kr \<notin> fst ` set m" by auto
  then have n: "map_of m (fst kr) = None" by (simp add: map_of_eq_None_iff)
  from f have u: "AList.update (fst kr) (snd kr) m = m @ [kr]" by (simp add: update_fresh)
  from Cons.prems have "fst ` set nm \<inter> fst ` set (m @ [kr]) = {}" by auto
  with Cons.IH [of "m @ [kr]"] Cons.prems(1) n u show ?case by simp
qed

lemma index_distinct:
  "distinct (map (rowKey H) rows) \<Longrightarrow> rowKey H ` set rows \<inter> fst ` set m = {} \<Longrightarrow>
   fold (\<lambda>row existingMap. AList.update (rowKey H row) row existingMap) rows m =
     m @ map (\<lambda>row. (rowKey H row, row)) rows"
proof (induction rows arbitrary: m)
  case Nil
  then show ?case by simp
next
  case (Cons r rows)
  from Cons.prems(2) have f: "rowKey H r \<notin> fst ` set m" by auto
  then have u: "AList.update (rowKey H r) r m = m @ [(rowKey H r, r)]" by (simp add: update_fresh)
  from Cons.prems have "rowKey H ` set rows \<inter> fst ` set (m @ [(rowKey H r, r)]) = {}" by auto
  with Cons.IH [of "m @ [(rowKey H r, r)]"] Cons.prems(1) u show ?case by simp
qed

text \<open>The second pass: every row of the batch finds its record in the master file.\<close>

lemma second_pass:
  "distinct (map fst em) \<Longrightarrow>
   \<forall>r\<in>set batch. truthy (getProp r ''orderId'') \<longrightarrow> rowKey H r \<in> fst ` set em \<Longrightarrow>
   fold (processNewRow H ft) batch (em, nm) =
     (map (\<lambda>kr. (fst kr, mergeAll ft (rowsWithKey H (fst kr) batch) (snd kr))) em, nm)"
proof (induction batch arbitrary: em)
  case Nil
  then show ?case by (simp add: rowsWithKey_Nil mergeAll_Nil)
next
  case (Cons r batch)
  show ?case
  proof (cases "truthy (getProp r ''orderId'')")
    case False
    then have "processNewRow H ft r (em, nm) = (em, nm)"
      by (simp add: processNewRow_def)
    with Cons.IH [of em] Cons.prems False show ?thesis
      by (simp add: rowsWithKey_Cons)
  next
    case True
    with Cons.prems(2) have k: "rowKey H r \<in> fst ` set em" by simp
    then obtain e where e: "map_of em (rowKey H r) = Some e"
      by (metis map_of_eq_None_iff not_None_eq)
    let ?em = "AList.update (rowKey H r) (mergeRowData e r ft) em"
    from True e have p: "processNewRow H ft r (em, nm) = (?em, nm)"
      by (simp add: processNewRow_def Let_def)
    have u: "?em = map (\<lambda>kr. if fst kr = rowKey H r then (rowKey H r, mergeRowData e r ft) else kr) em"
      using Cons.prems(1) k by (rule update_present)
    have d: "distinct (map fst ?em)" using Cons.prems(1) by (rule distinct_update)
    have "map fst ?em = map fst em"
      using k by (simp add: update_keys)
    then have ks: "fst ` set ?em = fst ` set em"
      by (metis list.set_map)
    from Cons.prems(2) ks have
      "\<forall>r\<in>set batch. truthy (getProp r ''orderId'') \<longrightarrow> rowKey H r \<in> fst ` set ?em"
      by simp
    from Cons.IH [OF d this] have
      "fold (processNewRow H ft) (r # batch) (em, nm) =
        (map (\<lambda>kr. (fst kr, mergeAll ft (rowsWithKey H (fst kr) batch) (snd kr))) ?em, nm)"
      by (simp add: p)
    also have "map (\<lambda>kr. (fst kr, mergeAll ft (rowsWithKey H (fst kr) batch) (snd kr))) ?em =
       map (\<lambda>kr. (fst kr, mergeAll ft (rowsWithKey H (fst kr) (r # batch)) (snd kr))) em"
    proof -
      have "\<And>kr. kr \<in> set em \<Longrightarrow> fst kr = rowKey H r \<Longrightarrow> snd kr = e"
        using e Cons.prems(1) by (metis map_of_is_SomeI option.inject prod.collapse)
      then show ?thesis
        unfolding u using True
        by (auto simp: rowsWithKey_Cons mergeAll_Cons)
    qed
    finally show ?thesis .
  qed
qed

lemma mergedRows_empty:
  "mergedRows H [] batch ft =
     sortBy (compareRows H) (map snd (snd (fold (processNewRow H ft) batch ([], []))))"
proof -
  let ?nm = "snd (fold (processNewRow H ft) batch ([], []))"
  have f: "fst (fold (processNewRow H ft) batch ([], [])) = []"
    using first_pass [of H ft batch "[]"] by blast
  have "keyed H ?nm"
    using keyed_fold_processNewRow [of H "([], [])" ft batch] by (simp add: keyed_Nil)
  then have "distinct (map fst ?nm)" by (simp add: keyed_def)
  then have "addNewRows ?nm [] = ?nm"
    unfolding addNewRows_def using addNewRows_empty [of ?nm "[]"] by simp
  with f show ?thesis
    by (simp add: mergedRows_def Let_def indexExisting_def)
qed

lemma mergedRows_twice:
  assumes c: "consistentComparator (localeCompare H)"
    and n: "list_all normalizedRow batch"
  shows "mergedRows H (mergedRows H [] batch ft) batch ft = mergedRows H [] batch ft"
proof -
  let ?nm = "snd (fold (processNewRow H ft) batch ([], []))"
  let ?L = "sortBy (compareRows H) (map snd ?nm)"
  let ?em = "map (\<lambda>row. (rowKey H row, row)) ?L"
  have L: "mergedRows H [] batch ft = ?L" by (rule mergedRows_empty)
  have total: "\<And>a b. compareRows H a b \<le> 0 \<or> compareRows H b a \<le> 0"
    using c by (auto simp: consistentComparator_def compareRows_def)
  have trans: "\<And>a b c. compareRows H a b \<le> 0 \<Longrightarrow> compareRows H b c \<le> 0 \<Longrightarrow>
      compareRows H a c \<le> 0"
    using c unfolding consistentComparator_def compareRows_def by blast
  have sorted: "sorted_wrt (\<lambda>a b. compareRows H a b \<le> 0) ?L"
    by (rule sorted_wrt_sortBy [of "compareRows H", OF total trans])
  have keyed: "keyed H ?nm"
    using keyed_fold_processNewRow [of H "([], [])" ft batch] by (simp add: keyed_Nil)
  then have dnm: "distinct (map fst ?nm)" by (simp add: keyed_def)
  have entries: "\<And>k. map_of ?nm k =
      (case rowsWithKey H k batch of [] \<Rightarrow> None | r # rs \<Rightarrow> Some (mergeAll ft rs r))"
    using first_pass [of H ft batch "[]"] by simp
  have dL: "distinct (map (rowKey H) ?L)"
    using keyed_rowKeys [OF keyed] by (simp add: distinct_map_sortBy)
  have idx: "indexExisting H ?L = ?em"
    unfolding indexExisting_def using index_distinct [OF dL, of "[]"] by simp
  have dem: "distinct (map fst ?em)"
    using dL by (simp add: comp_def)
  have found: "\<forall>r\<in>set batch. truthy (getProp r ''orderId'') \<longrightarrow> rowKey H r \<in> fst ` set ?em"
  proof (intro ballI impI)
    fix r assume r: "r \<in> set batch" and t: "truthy (getProp r ''orderId'')"
    then have "r \<in> set (rowsWithKey H (rowKey H r) batch)" by (simp add: rowsWithKey_def)
    then have "rowsWithKey H (rowKey H r) batch \<noteq> []" by auto
    with entries [of "rowKey H r"] obtain e where e: "map_of ?nm (rowKey H r) = Some e"
      by (auto split: list.splits)
    then have "(rowKey H r, e) \<in> set ?nm" by (rule map_of_SomeD)
    then have "e \<in> snd ` set ?nm" by force
    then have "e \<in> set ?L" by (simp add: set_sortBy)
    moreover from keyed e have "rowKey H e = rowKey H r" by (rule keyed_lookup)
    ultimately have "rowKey H r \<in> rowKey H ` set ?L"
      by (metis imageI)
    moreover have "fst ` set ?em = rowKey H ` set ?L"
      by (simp add: image_image)
    ultimately show "rowKey H r \<in> fst ` set ?em" by simp
  qed
  have second: "fold (processNewRow H ft) batch (?em, []) =
      (map (\<lambda>kr. (fst kr, mergeAll ft (rowsWithKey H (fst kr) batch) (snd kr))) ?em, [])"
    using dem found by (rule second_pass)
  have same: "map (\<lambda>r. mergeAll ft (rowsWithKey H (rowKey H r) batch) r) ?L = ?L"
  proof (rule map_idI)
    fix r assume "r \<in> set ?L"
    then obtain k where kr: "(k, r) \<in> set ?nm" by (auto simp: set_sortBy)
    with dnm have m: "map_of ?nm k = Some r" by (simp add: map_of_is_SomeI)
    with keyed have k: "rowKey H r = k" by (rule keyed_lookup)
    from m entries [of k] obtain r1 rs where
      rk: "rowsWithKey H k batch = r1 # rs" and r: "r = mergeAll ft rs r1"
      by (auto split: list.splits)
    from rk have "r1 \<in> set (rowsWithKey H k batch)" by simp
    then have "r1 \<in> set batch" by (simp add: rowsWithKey_def)
    with n have "normalizedRow r1" by (simp add: list_all_iff)
    then have "mergeAll ft (r1 # rs) (mergeAll ft rs r1) = mergeAll ft rs r1"
      by (rule mergeAll_again)
    with k rk r show "mergeAll ft (rowsWithKey H (rowKey H r) batch) r = r" by simp
  qed
  have "mergedRows H ?L batch ft = sortBy (compareRows H) ?L"
    using same by (simp add: mergedRows_def Let_def idx second addNewRows_def comp_def)
  also have "\<dots> = ?L" using sorted by (rule sortBy_sorted)
  finally show ?thesis by (simp only: L)
qed

subsection \<open>The workbook between two ingestions\<close>
































subsection \<open>Ingesting a batch twice\<close>




end
